theory Spec2Isabelle
  imports Main "HOL-Library.Word"
begin

unbundle bit_operations_syntax

section \<open>Bytes, words and big-endian encoding\<close>

type_synonym byte = "8 word"
type_synonym uint16 = "16 word"
type_synonym uint32 = "32 word"

text \<open>\<^verbatim>\<open>binary.BigEndian\<close>: the bytes that \<^verbatim>\<open>binary.Write\<close> hands to the writer for a
  fixed-size unsigned integer, and the value \<^verbatim>\<open>binary.Read\<close> builds from them.\<close>

definition PutUint16 :: "uint16 \<Rightarrow> byte list" where
  "PutUint16 v = [ucast (drop_bit 8 v), ucast v]"

definition PutUint32 :: "uint32 \<Rightarrow> byte list" where
  "PutUint32 v = [ucast (drop_bit 24 v), ucast (drop_bit 16 v), ucast (drop_bit 8 v), ucast v]"

definition Uint32 :: "byte list \<Rightarrow> uint32" where
  "Uint32 bs = (case bs of
      [a, b, c, d] \<Rightarrow> push_bit 24 (ucast a) OR push_bit 16 (ucast b) OR push_bit 8 (ucast c) OR ucast d
    | _ \<Rightarrow> 0)"

text \<open>Go strings are byte sequences; \<^typ>\<open>string\<close> is a list of 8-bit characters.\<close>

definition bytes_of :: "string \<Rightarrow> byte list" where
  "bytes_of s = map (\<lambda>c. (of_char c :: byte)) s"

definition string_of :: "byte list \<Rightarrow> string" where
  "string_of bs = map (\<lambda>b. char_of (unat b)) bs"

section \<open>Errors\<close>

text \<open>The eight codes of \<^verbatim>\<open>ErrorCode\<close> (types.go).\<close>

datatype ErrorCode =
    UnlowercasedHeaderName
  | DuplicateHeaders
  | WrongCompressedPayloadSize
  | UnknownFrameType
  | InvalidControlFrame
  | InvalidDataFrame
  | InvalidHeaderPresent
  | ZeroStreamId

text \<open>Errors that come from the byte streams or from zlib, not from the codec.\<close>

datatype ioerror = EOF | ErrUnexpectedEOF | ErrShortWrite | ErrZlib

text \<open>A Go \<^verbatim>\<open>error\<close> value returned by the codec: \<^verbatim>\<open>&Error{Err, StreamId}\<close> or an error
  of the transport passed through.\<close>

datatype error = Error ErrorCode uint32 | IOError ioerror

section \<open>The byte sink\<close>

text \<open>An \<^verbatim>\<open>io.Writer\<close>: the bytes accepted so far, and how many more it accepts before
  its writes fail (\<open>None\<close>: it never fails). A write that does not fit is a short write:
  the sink keeps what fitted and reports the error.\<close>

record Writer =
  written :: "byte list"
  room :: "nat option"

definition Write :: "byte list \<Rightarrow> Writer \<Rightarrow> ioerror option \<times> Writer" where
  "Write p w = (case room w of
      None \<Rightarrow> (None, w\<lparr>written := written w @ p\<rparr>)
    | Some n \<Rightarrow>
        if length p \<le> n then (None, w\<lparr>written := written w @ p, room := Some (n - length p)\<rparr>)
        else (Some ErrShortWrite, w\<lparr>written := written w @ take n p, room := Some 0\<rparr>))"

text \<open>Sequencing of writes: \<^verbatim>\<open>if err = ...; err != nil { return }\<close>.\<close>

definition andThen :: "ioerror option \<times> 's \<Rightarrow> ('s \<Rightarrow> ioerror option \<times> 's) \<Rightarrow> ioerror option \<times> 's" where
  "andThen m k = (case m of (None, s) \<Rightarrow> k s | (Some e, s) \<Rightarrow> (Some e, s))"

section \<open>Frame model (types.go)\<close>

definition Version :: uint16 where "Version = 3"

definition TypeSynStream :: uint16 where "TypeSynStream = 0x0001"
definition TypeSynReply :: uint16 where "TypeSynReply = 0x0002"
definition TypeRstStream :: uint16 where "TypeRstStream = 0x0003"
definition TypeSettings :: uint16 where "TypeSettings = 0x0004"
definition TypePing :: uint16 where "TypePing = 0x0006"
definition TypeGoAway :: uint16 where "TypeGoAway = 0x0007"
definition TypeHeaders :: uint16 where "TypeHeaders = 0x0008"
definition TypeWindowUpdate :: uint16 where "TypeWindowUpdate = 0x0009"

definition MaxDataLength :: nat where "MaxDataLength = 2 ^ 24 - 1"

definition headerValueSeparator :: string where "headerValueSeparator = [CHR 0x00]"

record ControlFrameHeader =
  version :: uint16
  frameType :: uint16
  Flags :: byte
  length' :: uint32

text \<open>\<^verbatim>\<open>http.Header\<close> is \<^verbatim>\<open>map[string][]string\<close>. It is an association list with
  distinct keys here; the order of the list is the order in which \<^verbatim>\<open>range\<close> visits the map,
  which Go leaves unspecified.\<close>

type_synonym Header = "(string \<times> string list) list"

record SynStreamFrame =
  SynStream_CFHeader :: ControlFrameHeader
  SynStream_StreamId :: uint32
  AssociatedToStreamId :: uint32
  Priority :: byte
  Slot :: byte
  SynStream_Headers :: Header

record SynReplyFrame =
  SynReply_CFHeader :: ControlFrameHeader
  SynReply_StreamId :: uint32
  SynReply_Headers :: Header

record RstStreamFrame =
  RstStream_CFHeader :: ControlFrameHeader
  RstStream_StreamId :: uint32
  Status :: uint32

record SettingsFlagIdValue =
  Flag :: byte
  Id :: uint32
  Value :: uint32

record SettingsFrame =
  Settings_CFHeader :: ControlFrameHeader
  FlagIdValues :: "SettingsFlagIdValue list"

record PingFrame =
  Ping_CFHeader :: ControlFrameHeader
  Ping_Id :: uint32

record GoAwayFrame =
  GoAway_CFHeader :: ControlFrameHeader
  LastGoodStreamId :: uint32
  GoAwayStatus :: uint32

record HeadersFrame =
  Headers_CFHeader :: ControlFrameHeader
  Headers_StreamId :: uint32
  Headers_Headers :: Header

record WindowUpdateFrame =
  WindowUpdate_CFHeader :: ControlFrameHeader
  WindowUpdate_StreamId :: uint32
  DeltaWindowSize :: uint32

record DataFrame =
  Data_StreamId :: uint32
  Data_Flags :: byte
  Data :: "byte list"

text \<open>The values behind the \<^verbatim>\<open>Frame\<close> interface.\<close>

datatype Frame =
    SynStream SynStreamFrame
  | SynReply SynReplyFrame
  | RstStream RstStreamFrame
  | Settings SettingsFrame
  | Ping PingFrame
  | GoAway GoAwayFrame
  | Headers HeadersFrame
  | WindowUpdate WindowUpdateFrame
  | DataF DataFrame

section \<open>The Framer and zlib\<close>

text \<open>zlib is a collaborator of the codec and stays abstract: a compressor state \<open>'c\<close>
  whose \<^verbatim>\<open>Write\<close> and \<^verbatim>\<open>Flush\<close> append bytes to the scratch buffer, and a decompressor
  state \<open>'d\<close> that reads through the bounded reader (the rest of the input and the count
  \<^verbatim>\<open>N\<close>). \<open>zReadFull d n\<close> is \<^verbatim>\<open>io.ReadFull\<close> of \<open>n\<close> bytes from the decompressor.\<close>

record ('c, 'd) zlib =
  zWrite :: "'c \<Rightarrow> byte list \<Rightarrow> ioerror option \<times> 'c \<times> byte list"
  zFlush :: "'c \<Rightarrow> 'c \<times> byte list"
  NewReaderDict :: "byte list \<times> int \<Rightarrow> ioerror + ('d \<times> byte list \<times> int)"
  zReadFull :: "'d \<Rightarrow> nat \<Rightarrow> byte list \<times> int \<Rightarrow> (ioerror + byte list) \<times> 'd \<times> byte list \<times> int"

text \<open>\<^verbatim>\<open>Framer\<close> (types.go): \<open>Framer_w\<close> is the sink \<^verbatim>\<open>w\<close>, \<open>Framer_r\<close> the bytes that
  the source \<^verbatim>\<open>r\<close> still holds, \<open>headerReader_N\<close> the field \<^verbatim>\<open>headerReader.N\<close>.\<close>

record ('c, 'd) Framer =
  headerCompressionDisabled :: bool
  Framer_w :: Writer
  headerBuf :: "byte list"
  headerCompressor :: 'c
  Framer_r :: "byte list"
  headerReader_N :: int
  headerDecompressor :: "'d option"

text \<open>\<^verbatim>\<open>binary.Write(f.w, binary.BigEndian, v)\<close> and \<^verbatim>\<open>f.w.Write(p)\<close>.\<close>

definition fwrite :: "byte list \<Rightarrow> ('c, 'd) Framer \<Rightarrow> ioerror option \<times> ('c, 'd) Framer" where
  "fwrite p f = (case Write p (Framer_w f) of (e, w') \<Rightarrow> (e, f\<lparr>Framer_w := w'\<rparr>))"

section \<open>Writing (write.go)\<close>

definition writeControlFrameHeader ::
  "ControlFrameHeader \<Rightarrow> ('c, 'd) Framer \<Rightarrow> ioerror option \<times> ('c, 'd) Framer" where
  "writeControlFrameHeader h f =
     (let controlBit = (0x8000 :: uint16) in
      andThen (fwrite (PutUint16 (controlBit OR version h)) f) (\<lambda>f.
      andThen (fwrite (PutUint16 (frameType h)) f) (\<lambda>f.
      let flagsAndLength = push_bit 24 (ucast (Flags h) :: uint32) OR length' h in
      fwrite (PutUint32 flagsAndLength) f)))"

text \<open>The result of a \<^verbatim>\<open>write\<close> method: the error (\<open>None\<close> is \<^verbatim>\<open>nil\<close>), the frame as the
  method leaves it (it fills in the common header in place), and the Framer.\<close>

definition lift_io :: "ioerror option \<times> 's \<Rightarrow> error option \<times> 's" where
  "lift_io m = (case m of (e, s) \<Rightarrow> (map_option IOError e, s))"

definition RstStreamFrame_write ::
  "RstStreamFrame \<Rightarrow> ('c, 'd) Framer \<Rightarrow> error option \<times> RstStreamFrame \<times> ('c, 'd) Framer" where
  "RstStreamFrame_write frame f =
     (if RstStream_StreamId frame = 0 then (Some (Error ZeroStreamId 0), frame, f)
      else
        let frame = frame\<lparr>RstStream_CFHeader := (RstStream_CFHeader frame)
              \<lparr>version := Version, frameType := TypeRstStream, Flags := 0, length' := 8\<rparr>\<rparr> in
        case writeControlFrameHeader (RstStream_CFHeader frame) f of
          (Some e, f) \<Rightarrow> (Some (IOError e), frame, f)
        | (None, f) \<Rightarrow>
        case fwrite (PutUint32 (RstStream_StreamId frame)) f of
          (Some e, f) \<Rightarrow> (Some (IOError e), frame, f)
        | (None, f) \<Rightarrow>
        if Status frame = 0 then (Some (Error InvalidControlFrame (RstStream_StreamId frame)), frame, f)
        else
        case fwrite (PutUint32 (Status frame)) f of
          (Some e, f) \<Rightarrow> (Some (IOError e), frame, f)
        | (None, f) \<Rightarrow> (None, frame, f))"

text \<open>The loop over \<^verbatim>\<open>frame.FlagIdValues\<close> in \<^verbatim>\<open>SettingsFrame.write\<close>.\<close>

fun writeFlagIdValues ::
  "SettingsFlagIdValue list \<Rightarrow> ('c, 'd) Framer \<Rightarrow> ioerror option \<times> ('c, 'd) Framer" where
  "writeFlagIdValues [] f = (None, f)"
| "writeFlagIdValues (flagIdValue # rest) f =
     (let flagId = push_bit 24 (ucast (Flag flagIdValue) :: uint32) OR Id flagIdValue in
      andThen (fwrite (PutUint32 flagId) f) (\<lambda>f.
      andThen (fwrite (PutUint32 (Value flagIdValue)) f) (\<lambda>f.
      writeFlagIdValues rest f)))"

definition SettingsFrame_write ::
  "SettingsFrame \<Rightarrow> ('c, 'd) Framer \<Rightarrow> error option \<times> SettingsFrame \<times> ('c, 'd) Framer" where
  "SettingsFrame_write frame f =
     (let frame = frame\<lparr>Settings_CFHeader := (Settings_CFHeader frame)
            \<lparr>version := Version, frameType := TypeSettings,
             length' := of_nat (length (FlagIdValues frame) * 8 + 4)\<rparr>\<rparr> in
      case lift_io
        (andThen (writeControlFrameHeader (Settings_CFHeader frame) f) (\<lambda>f.
         andThen (fwrite (PutUint32 (of_nat (length (FlagIdValues frame)))) f) (\<lambda>f.
         writeFlagIdValues (FlagIdValues frame) f)))
      of (e, f) \<Rightarrow> (e, frame, f))"

definition PingFrame_write ::
  "PingFrame \<Rightarrow> ('c, 'd) Framer \<Rightarrow> error option \<times> PingFrame \<times> ('c, 'd) Framer" where
  "PingFrame_write frame f =
     (if Ping_Id frame = 0 then (Some (Error ZeroStreamId 0), frame, f)
      else
        let frame = frame\<lparr>Ping_CFHeader := (Ping_CFHeader frame)
              \<lparr>version := Version, frameType := TypePing, Flags := 0, length' := 4\<rparr>\<rparr> in
        case lift_io
          (andThen (writeControlFrameHeader (Ping_CFHeader frame) f) (\<lambda>f.
           fwrite (PutUint32 (Ping_Id frame)) f))
        of (e, f) \<Rightarrow> (e, frame, f))"

definition GoAwayFrame_write ::
  "GoAwayFrame \<Rightarrow> ('c, 'd) Framer \<Rightarrow> error option \<times> GoAwayFrame \<times> ('c, 'd) Framer" where
  "GoAwayFrame_write frame f =
     (let frame = frame\<lparr>GoAway_CFHeader := (GoAway_CFHeader frame)
            \<lparr>version := Version, frameType := TypeGoAway, Flags := 0, length' := 8\<rparr>\<rparr> in
      case lift_io
        (andThen (writeControlFrameHeader (GoAway_CFHeader frame) f) (\<lambda>f.
         andThen (fwrite (PutUint32 (LastGoodStreamId frame)) f) (\<lambda>f.
         fwrite (PutUint32 (GoAwayStatus frame)) f)))
      of (e, f) \<Rightarrow> (e, frame, f))"

definition WindowUpdateFrame_write ::
  "WindowUpdateFrame \<Rightarrow> ('c, 'd) Framer \<Rightarrow> error option \<times> WindowUpdateFrame \<times> ('c, 'd) Framer" where
  "WindowUpdateFrame_write frame f =
     (let frame = frame\<lparr>WindowUpdate_CFHeader := (WindowUpdate_CFHeader frame)
            \<lparr>version := Version, frameType := TypeWindowUpdate, Flags := 0, length' := 8\<rparr>\<rparr> in
      case lift_io
        (andThen (writeControlFrameHeader (WindowUpdate_CFHeader frame) f) (\<lambda>f.
         andThen (fwrite (PutUint32 (WindowUpdate_StreamId frame)) f) (\<lambda>f.
         fwrite (PutUint32 (DeltaWindowSize frame)) f)))
      of (e, f) \<Rightarrow> (e, frame, f))"


subsection \<open>Header blocks\<close>

text \<open>\<^verbatim>\<open>strings.ToLower\<close> on the ASCII letters; other bytes are left as they are.\<close>

definition toLowerChar :: "char \<Rightarrow> char" where
  "toLowerChar c = (let n = (of_char c :: nat) in if 65 \<le> n \<and> n \<le> 90 then char_of (n + 32) else c)"

definition ToLower :: "string \<Rightarrow> string" where
  "ToLower s = map toLowerChar s"

text \<open>\<^verbatim>\<open>strings.Join\<close>.\<close>

fun Join :: "string list \<Rightarrow> string \<Rightarrow> string" where
  "Join [] sep = []"
| "Join [v] sep = v"
| "Join (v # vs) sep = v @ sep @ Join vs sep"

text \<open>The body of the loop \<^verbatim>\<open>for name, values := range h\<close> of \<^verbatim>\<open>writeHeaderValueBlock\<close>,
  over any writer \<open>wr\<close>. The length of the name is written before the name is lowercased.\<close>

fun writeHeaderEntries ::
  "(byte list \<Rightarrow> 's \<Rightarrow> ioerror option \<times> 's) \<Rightarrow> Header \<Rightarrow> 's \<Rightarrow> ioerror option \<times> 's" where
  "writeHeaderEntries wr [] s = (None, s)"
| "writeHeaderEntries wr ((name, values) # h) s =
     andThen (wr (PutUint32 (of_nat (length name))) s) (\<lambda>s.
     let name = ToLower name in
     andThen (wr (bytes_of name) s) (\<lambda>s.
     let v = Join values headerValueSeparator in
     andThen (wr (PutUint32 (of_nat (length v))) s) (\<lambda>s.
     andThen (wr (bytes_of v) s) (\<lambda>s.
     writeHeaderEntries wr h s))))"

text \<open>\<^verbatim>\<open>writeHeaderValueBlock(w, h)\<close>. The byte count \<^verbatim>\<open>n\<close> that the source also returns is
  dropped by each of its callers and is left out.\<close>

definition writeHeaderValueBlock ::
  "(byte list \<Rightarrow> 's \<Rightarrow> ioerror option \<times> 's) \<Rightarrow> Header \<Rightarrow> 's \<Rightarrow> ioerror option \<times> 's" where
  "writeHeaderValueBlock wr h s =
     andThen (wr (PutUint32 (of_nat (length h))) s) (\<lambda>s. writeHeaderEntries wr h s)"

text \<open>The two writers a header block goes to: the scratch buffer \<^verbatim>\<open>f.headerBuf\<close> itself, or
  the compressor \<^verbatim>\<open>f.headerCompressor\<close>, whose output lands in that buffer.\<close>

definition headerBuf_Write :: "byte list \<Rightarrow> ('c, 'd) Framer \<Rightarrow> ioerror option \<times> ('c, 'd) Framer" where
  "headerBuf_Write p f = (None, f\<lparr>headerBuf := headerBuf f @ p\<rparr>)"

definition headerCompressor_Write ::
  "('c, 'd) zlib \<Rightarrow> byte list \<Rightarrow> ('c, 'd) Framer \<Rightarrow> ioerror option \<times> ('c, 'd) Framer" where
  "headerCompressor_Write z p f = (case zWrite z (headerCompressor f) p of
     (e, c, out) \<Rightarrow> (e, f\<lparr>headerCompressor := c, headerBuf := headerBuf f @ out\<rparr>))"

definition headerCompressor_Flush :: "('c, 'd) zlib \<Rightarrow> ('c, 'd) Framer \<Rightarrow> ('c, 'd) Framer" where
  "headerCompressor_Flush z f = (case zFlush z (headerCompressor f) of
     (c, out) \<Rightarrow> f\<lparr>headerCompressor := c, headerBuf := headerBuf f @ out\<rparr>)"

text \<open>The part the three header-bearing writers share: marshal the headers into the
  scratch buffer, through the compressor unless compression is disabled, and flush.\<close>

definition marshalHeaders ::
  "('c, 'd) zlib \<Rightarrow> Header \<Rightarrow> ('c, 'd) Framer \<Rightarrow> ioerror option \<times> ('c, 'd) Framer" where
  "marshalHeaders z h f =
     (let writer = (if \<not> headerCompressionDisabled f then headerCompressor_Write z else headerBuf_Write) in
      andThen (writeHeaderValueBlock writer h f) (\<lambda>f.
        (None, if \<not> headerCompressionDisabled f then headerCompressor_Flush z f else f)))"

definition writeSynStreamFrame ::
  "('c, 'd) zlib \<Rightarrow> SynStreamFrame \<Rightarrow> ('c, 'd) Framer \<Rightarrow> error option \<times> SynStreamFrame \<times> ('c, 'd) Framer" where
  "writeSynStreamFrame z frame f =
     (if SynStream_StreamId frame = 0 then (Some (Error ZeroStreamId 0), frame, f)
      else case marshalHeaders z (SynStream_Headers frame) f of
        (Some e, f) \<Rightarrow> (Some (IOError e), frame, f)
      | (None, f) \<Rightarrow>
        let frame = frame\<lparr>SynStream_CFHeader := (SynStream_CFHeader frame)
              \<lparr>version := Version, frameType := TypeSynStream,
               length' := of_nat (length (headerBuf f) + 10)\<rparr>\<rparr> in
        case lift_io
          (andThen (writeControlFrameHeader (SynStream_CFHeader frame) f) (\<lambda>f.
           andThen (fwrite (PutUint32 (SynStream_StreamId frame)) f) (\<lambda>f.
           andThen (fwrite (PutUint32 (AssociatedToStreamId frame)) f) (\<lambda>f.
           andThen (fwrite [push_bit 5 (Priority frame)] f) (\<lambda>f.
           andThen (fwrite [Slot frame] f) (\<lambda>f.
           fwrite (headerBuf f) f))))))
        of (Some e, f) \<Rightarrow> (Some e, frame, f)
         | (None, f) \<Rightarrow> (None, frame, f\<lparr>headerBuf := []\<rparr>))"

definition writeSynReplyFrame ::
  "('c, 'd) zlib \<Rightarrow> SynReplyFrame \<Rightarrow> ('c, 'd) Framer \<Rightarrow> error option \<times> SynReplyFrame \<times> ('c, 'd) Framer" where
  "writeSynReplyFrame z frame f =
     (if SynReply_StreamId frame = 0 then (Some (Error ZeroStreamId 0), frame, f)
      else case marshalHeaders z (SynReply_Headers frame) f of
        (Some e, f) \<Rightarrow> (Some (IOError e), frame, f)
      | (None, f) \<Rightarrow>
        let frame = frame\<lparr>SynReply_CFHeader := (SynReply_CFHeader frame)
              \<lparr>version := Version, frameType := TypeSynReply,
               length' := of_nat (length (headerBuf f) + 4)\<rparr>\<rparr> in
        case lift_io
          (andThen (writeControlFrameHeader (SynReply_CFHeader frame) f) (\<lambda>f.
           andThen (fwrite (PutUint32 (SynReply_StreamId frame)) f) (\<lambda>f.
           fwrite (headerBuf f) f)))
        of (Some e, f) \<Rightarrow> (Some e, frame, f)
         | (None, f) \<Rightarrow> (None, frame, f\<lparr>headerBuf := []\<rparr>))"

definition writeHeadersFrame ::
  "('c, 'd) zlib \<Rightarrow> HeadersFrame \<Rightarrow> ('c, 'd) Framer \<Rightarrow> error option \<times> HeadersFrame \<times> ('c, 'd) Framer" where
  "writeHeadersFrame z frame f =
     (if Headers_StreamId frame = 0 then (Some (Error ZeroStreamId 0), frame, f)
      else case marshalHeaders z (Headers_Headers frame) f of
        (Some e, f) \<Rightarrow> (Some (IOError e), frame, f)
      | (None, f) \<Rightarrow>
        let frame = frame\<lparr>Headers_CFHeader := (Headers_CFHeader frame)
              \<lparr>version := Version, frameType := TypeHeaders,
               length' := of_nat (length (headerBuf f) + 4)\<rparr>\<rparr> in
        case lift_io
          (andThen (writeControlFrameHeader (Headers_CFHeader frame) f) (\<lambda>f.
           andThen (fwrite (PutUint32 (Headers_StreamId frame)) f) (\<lambda>f.
           fwrite (headerBuf f) f)))
        of (Some e, f) \<Rightarrow> (Some e, frame, f)
         | (None, f) \<Rightarrow> (None, frame, f\<lparr>headerBuf := []\<rparr>))"

definition writeDataFrame ::
  "DataFrame \<Rightarrow> ('c, 'd) Framer \<Rightarrow> error option \<times> DataFrame \<times> ('c, 'd) Framer" where
  "writeDataFrame frame f =
     (if Data_StreamId frame = 0 then (Some (Error ZeroStreamId 0), frame, f)
      else if Data_StreamId frame AND 0x80000000 \<noteq> 0 \<or> length (Data frame) \<ge> 0x0f000000
        then (Some (Error InvalidDataFrame (Data_StreamId frame)), frame, f)
      else
        case lift_io
          (andThen (fwrite (PutUint32 (Data_StreamId frame)) f) (\<lambda>f.
           let flagsAndLength = push_bit 24 (ucast (Data_Flags frame) :: uint32) OR of_nat (length (Data frame)) in
           andThen (fwrite (PutUint32 flagsAndLength) f) (\<lambda>f.
           fwrite (Data frame) f)))
        of (e, f) \<Rightarrow> (e, frame, f))"

text \<open>\<^verbatim>\<open>Framer.WriteFrame\<close>: the dynamic dispatch \<^verbatim>\<open>frame.write(f)\<close>.\<close>

definition rewrap :: "('a \<Rightarrow> Frame) \<Rightarrow> error option \<times> 'a \<times> 's \<Rightarrow> error option \<times> Frame \<times> 's" where
  "rewrap C m = (case m of (e, frame, f) \<Rightarrow> (e, C frame, f))"

fun WriteFrame ::
  "('c, 'd) zlib \<Rightarrow> Frame \<Rightarrow> ('c, 'd) Framer \<Rightarrow> error option \<times> Frame \<times> ('c, 'd) Framer" where
  "WriteFrame z (SynStream frame) f = rewrap SynStream (writeSynStreamFrame z frame f)"
| "WriteFrame z (SynReply frame) f = rewrap SynReply (writeSynReplyFrame z frame f)"
| "WriteFrame z (RstStream frame) f = rewrap RstStream (RstStreamFrame_write frame f)"
| "WriteFrame z (Settings frame) f = rewrap Settings (SettingsFrame_write frame f)"
| "WriteFrame z (Ping frame) f = rewrap Ping (PingFrame_write frame f)"
| "WriteFrame z (GoAway frame) f = rewrap GoAway (GoAwayFrame_write frame f)"
| "WriteFrame z (Headers frame) f = rewrap Headers (writeHeadersFrame z frame f)"
| "WriteFrame z (WindowUpdate frame) f = rewrap WindowUpdate (WindowUpdateFrame_write frame f)"
| "WriteFrame z (DataF frame) f = rewrap DataF (writeDataFrame frame f)"


section \<open>Reading (read.go)\<close>

text \<open>\<^verbatim>\<open>io.ReadFull\<close> of \<open>n\<close> bytes from a source that holds the bytes \<open>src\<close> and then ends:
  \<^verbatim>\<open>io.EOF\<close> when nothing could be read, \<^verbatim>\<open>io.ErrUnexpectedEOF\<close> when the source ends
  part-way. \<^verbatim>\<open>binary.Read\<close> of a fixed-size integer is such a read of its size.\<close>

definition ReadFull :: "nat \<Rightarrow> byte list \<Rightarrow> (ioerror + byte list) \<times> byte list" where
  "ReadFull n src =
     (if n \<le> length src then (Inr (take n src), drop n src)
      else (Inl (if src = [] then EOF else ErrUnexpectedEOF), []))"

definition fread :: "nat \<Rightarrow> ('c, 'd) Framer \<Rightarrow> (ioerror + byte list) \<times> ('c, 'd) Framer" where
  "fread n f = (case ReadFull n (Framer_r f) of (x, src) \<Rightarrow> (x, f\<lparr>Framer_r := src\<rparr>))"

text \<open>A read of \<open>n\<close> bytes from \<^verbatim>\<open>f.headerDecompressor\<close>. The reader is only used after
  \<^verbatim>\<open>uncorkHeaderDecompressor\<close> has returned \<^verbatim>\<open>nil\<close>, which leaves a decompressor in place.\<close>

definition zread :: "('c, 'd) zlib \<Rightarrow> nat \<Rightarrow> ('c, 'd) Framer \<Rightarrow> (ioerror + byte list) \<times> ('c, 'd) Framer" where
  "zread z n f = (case headerDecompressor f of
       None \<Rightarrow> (Inl ErrZlib, f)
     | Some d \<Rightarrow> (case zReadFull z d n (Framer_r f, headerReader_N f) of
         (x, d', src, N) \<Rightarrow> (x, f\<lparr>headerDecompressor := Some d', Framer_r := src, headerReader_N := N\<rparr>)))"

text \<open>\<^verbatim>\<open>uncorkHeaderDecompressor(payloadSize)\<close>.\<close>

definition uncorkHeaderDecompressor ::
  "('c, 'd) zlib \<Rightarrow> int \<Rightarrow> ('c, 'd) Framer \<Rightarrow> ioerror option \<times> ('c, 'd) Framer" where
  "uncorkHeaderDecompressor z payloadSize f =
     (if headerDecompressor f \<noteq> None then (None, f\<lparr>headerReader_N := payloadSize\<rparr>)
      else
        let f = f\<lparr>headerReader_N := payloadSize\<rparr> in
        case NewReaderDict z (Framer_r f, headerReader_N f) of
          Inl err \<Rightarrow> (Some err, f)
        | Inr (decompressor, src, N) \<Rightarrow>
            (None, f\<lparr>Framer_r := src, headerReader_N := N, headerDecompressor := Some decompressor\<rparr>))"

subsection \<open>Header blocks\<close>

text \<open>\<^verbatim>\<open>strings.Split(s, sep)\<close> for a separator of one byte, as \<^verbatim>\<open>headerValueSeparator\<close> is.\<close>

fun Split :: "string \<Rightarrow> char \<Rightarrow> string list" where
  "Split [] sep = [[]]"
| "Split (c # s) sep =
     (if c = sep then [] # Split s sep
      else case Split s sep of [] \<Rightarrow> [[c]] | v # vs \<Rightarrow> (c # v) # vs)"

text \<open>\<^verbatim>\<open>textproto.CanonicalMIMEHeaderKey\<close> of the Go library, which \<^verbatim>\<open>http.Header.Add\<close>
  applies to its key: the first letter and every letter after a hyphen in upper case, the
  other letters in lower case; a key with a byte that is not a token character is returned
  as it is.\<close>

definition validHeaderFieldByte :: "char \<Rightarrow> bool" where
  "validHeaderFieldByte c = (let n = (of_char c :: nat) in
     (48 \<le> n \<and> n \<le> 57) \<or> (65 \<le> n \<and> n \<le> 90) \<or> (97 \<le> n \<and> n \<le> 122) \<or>
     n \<in> {33, 35, 36, 37, 38, 39, 42, 43, 45, 46, 94, 95, 96, 124, 126})"

fun canonicalize :: "bool \<Rightarrow> string \<Rightarrow> string" where
  "canonicalize upper [] = []"
| "canonicalize upper (c # cs) =
     (let n = (of_char c :: nat);
          c = (if upper \<and> 97 \<le> n \<and> n \<le> 122 then char_of (n - 32)
               else if \<not> upper \<and> 65 \<le> n \<and> n \<le> 90 then char_of (n + 32)
               else c)
      in c # canonicalize (c = CHR ''-'') cs)"

definition CanonicalMIMEHeaderKey :: "string \<Rightarrow> string" where
  "CanonicalMIMEHeaderKey s = (if list_all validHeaderFieldByte s then canonicalize True s else s)"

text \<open>\<^verbatim>\<open>h.Add(key, value)\<close>: append the value to the list stored under the canonical key. A
  new key goes to the end of the association list.\<close>

fun appendValue :: "Header \<Rightarrow> string \<Rightarrow> string \<Rightarrow> Header" where
  "appendValue [] key v = [(key, [v])]"
| "appendValue ((k, vs) # h) key v =
     (if k = key then (k, vs @ [v]) # h else (k, vs) # appendValue h key v)"

definition Add :: "Header \<Rightarrow> string \<Rightarrow> string \<Rightarrow> Header" where
  "Add h key v = appendValue h (CanonicalMIMEHeaderKey key) v"

text \<open>The loop \<^verbatim>\<open>for i := 0; i < int(numHeaders); i++\<close> of \<^verbatim>\<open>parseHeaderValueBlock\<close> over
  any reader \<open>rd\<close>, with the number of rounds left, the map \<^verbatim>\<open>h\<close> and the diagnostic \<^verbatim>\<open>e\<close>.
  \<^verbatim>\<open>h[name] != nil\<close> is a lookup of the name as it stands, not of its canonical form.\<close>

fun parseHeaderEntries ::
  "(nat \<Rightarrow> 's \<Rightarrow> (ioerror + byte list) \<times> 's) \<Rightarrow> uint32 \<Rightarrow> nat \<Rightarrow> Header \<Rightarrow> error option \<Rightarrow> 's
     \<Rightarrow> (Header \<times> error option) \<times> 's" where
  "parseHeaderEntries rd streamId 0 h e s = ((h, e), s)"
| "parseHeaderEntries rd streamId (Suc i) h e s =
     (case rd 4 s of (Inl err, s) \<Rightarrow> (([], Some (IOError err)), s) | (Inr bs, s) \<Rightarrow>
      case rd (unat (Uint32 bs)) s of (Inl err, s) \<Rightarrow> (([], Some (IOError err)), s) | (Inr nameBytes, s) \<Rightarrow>
      let name = string_of nameBytes;
          (e, name) = (if name \<noteq> ToLower name
                       then (Some (Error UnlowercasedHeaderName streamId), ToLower name)
                       else (e, name));
          e = (if map_of h name \<noteq> None then Some (Error DuplicateHeaders streamId) else e)
      in
      case rd 4 s of (Inl err, s) \<Rightarrow> (([], Some (IOError err)), s) | (Inr bs, s) \<Rightarrow>
      case rd (unat (Uint32 bs)) s of (Inl err, s) \<Rightarrow> (([], Some (IOError err)), s) | (Inr value, s) \<Rightarrow>
      let valueList = Split (string_of value) (hd headerValueSeparator);
          h = foldl (\<lambda>h v. Add h name v) h valueList
      in parseHeaderEntries rd streamId i h e s)"

text \<open>\<^verbatim>\<open>parseHeaderValueBlock(r, streamId)\<close>: the map and the error it returns; on a failed
  read the map is \<^verbatim>\<open>nil\<close>.\<close>

definition parseHeaderValueBlock ::
  "(nat \<Rightarrow> 's \<Rightarrow> (ioerror + byte list) \<times> 's) \<Rightarrow> uint32 \<Rightarrow> 's \<Rightarrow> (Header \<times> error option) \<times> 's" where
  "parseHeaderValueBlock rd streamId s =
     (case rd 4 s of
        (Inl err, s) \<Rightarrow> (([], Some (IOError err)), s)
      | (Inr bs, s) \<Rightarrow> parseHeaderEntries rd streamId (unat (Uint32 bs)) [] None s)"

definition invalidReqHeaders :: "string list" where
  "invalidReqHeaders = [''Connection'', ''Host'', ''Keep-Alive'', ''Proxy-Connection'', ''Transfer-Encoding'']"

definition invalidRespHeaders :: "string list" where
  "invalidRespHeaders = [''Connection'', ''Keep-Alive'', ''Proxy-Connection'', ''Transfer-Encoding'']"

text \<open>The loop \<^verbatim>\<open>for h := range frame.Headers { if invalidHeaders[h] { return ... } }\<close>.\<close>

definition hasInvalidHeader :: "string list \<Rightarrow> Header \<Rightarrow> bool" where
  "hasInvalidHeader invalidHeaders h = list_ex (\<lambda>(name, values). name \<in> set invalidHeaders) h"

text \<open>The two steps the three header-bearing readers share. \<open>uncork\<close> is the block
  \<^verbatim>\<open>if !f.headerCompressionDisabled { err := f.uncorkHeaderDecompressor(...) ... }\<close>, where
  the payload size is \<^verbatim>\<open>int64(h.length - 10)\<close> or \<^verbatim>\<open>int64(h.length - 4)\<close>, a subtraction
  of 32-bit unsigned values. \<open>decodeHeaders\<close> is the call of \<^verbatim>\<open>parseHeaderValueBlock\<close> on
  the reader chosen and the test of \<^verbatim>\<open>f.headerReader.N\<close> after it: the headers and the error
  \<^verbatim>\<open>err\<close> that stands then.\<close>

definition uncork ::
  "('c, 'd) zlib \<Rightarrow> uint32 \<Rightarrow> ('c, 'd) Framer \<Rightarrow> ioerror option \<times> ('c, 'd) Framer" where
  "uncork z payloadSize f =
     (if \<not> headerCompressionDisabled f
      then uncorkHeaderDecompressor z (uint payloadSize) f else (None, f))"

definition decodeHeaders ::
  "('c, 'd) zlib \<Rightarrow> uint32 \<Rightarrow> ('c, 'd) Framer \<Rightarrow> (Header \<times> error option) \<times> ('c, 'd) Framer" where
  "decodeHeaders z streamId f =
     (let reader = (if \<not> headerCompressionDisabled f then zread z else fread) in
      case parseHeaderValueBlock reader streamId f of ((headers, err), f) \<Rightarrow>
      let err = (if \<not> headerCompressionDisabled f \<and>
                    ((err = Some (IOError EOF) \<and> headerReader_N f = 0) \<or> headerReader_N f \<noteq> 0)
                 then Some (Error WrongCompressedPayloadSize 0) else err)
      in ((headers, err), f))"

subsection \<open>The variants\<close>

text \<open>A \<^verbatim>\<open>read\<close> method returns the frame it filled in, or the error; \<^verbatim>\<open>ReadFrame\<close> hands
  the caller \<^verbatim>\<open>nil\<close> for the frame whenever there is an error.\<close>

definition RstStreamFrame_read ::
  "ControlFrameHeader \<Rightarrow> ('c, 'd) Framer \<Rightarrow> (error + RstStreamFrame) \<times> ('c, 'd) Framer" where
  "RstStreamFrame_read h f =
     (case fread 4 f of (Inl err, f) \<Rightarrow> (Inl (IOError err), f) | (Inr bs, f) \<Rightarrow>
      let streamId = Uint32 bs in
      case fread 4 f of (Inl err, f) \<Rightarrow> (Inl (IOError err), f) | (Inr bs, f) \<Rightarrow>
      let status = Uint32 bs in
      if status = 0 then (Inl (Error InvalidControlFrame streamId), f)
      else if streamId = 0 then (Inl (Error ZeroStreamId 0), f)
      else (Inr \<lparr>RstStream_CFHeader = h, RstStream_StreamId = streamId, Status = status\<rparr>, f))"

text \<open>The loop \<^verbatim>\<open>for i := uint32(0); i < numSettings; i++\<close> of \<^verbatim>\<open>SettingsFrame.read\<close>.\<close>

fun readFlagIdValues ::
  "nat \<Rightarrow> SettingsFlagIdValue list \<Rightarrow> ('c, 'd) Framer
     \<Rightarrow> (ioerror + SettingsFlagIdValue list) \<times> ('c, 'd) Framer" where
  "readFlagIdValues 0 acc f = (Inr acc, f)"
| "readFlagIdValues (Suc i) acc f =
     (case fread 4 f of (Inl err, f) \<Rightarrow> (Inl err, f) | (Inr bs, f) \<Rightarrow>
      let id = Uint32 bs;
          flag = (ucast (drop_bit 24 (id AND 0xff000000)) :: byte);
          id = id AND 0xffffff
      in
      case fread 4 f of (Inl err, f) \<Rightarrow> (Inl err, f) | (Inr bs, f) \<Rightarrow>
      readFlagIdValues i (acc @ [\<lparr>Flag = flag, Id = id, Value = Uint32 bs\<rparr>]) f)"

definition SettingsFrame_read ::
  "ControlFrameHeader \<Rightarrow> ('c, 'd) Framer \<Rightarrow> (error + SettingsFrame) \<times> ('c, 'd) Framer" where
  "SettingsFrame_read h f =
     (case fread 4 f of (Inl err, f) \<Rightarrow> (Inl (IOError err), f) | (Inr bs, f) \<Rightarrow>
      let numSettings = Uint32 bs in
      case readFlagIdValues (unat numSettings) [] f of
        (Inl err, f) \<Rightarrow> (Inl (IOError err), f)
      | (Inr vs, f) \<Rightarrow> (Inr \<lparr>Settings_CFHeader = h, FlagIdValues = vs\<rparr>, f))"

definition PingFrame_read ::
  "ControlFrameHeader \<Rightarrow> ('c, 'd) Framer \<Rightarrow> (error + PingFrame) \<times> ('c, 'd) Framer" where
  "PingFrame_read h f =
     (case fread 4 f of (Inl err, f) \<Rightarrow> (Inl (IOError err), f) | (Inr bs, f) \<Rightarrow>
      let id = Uint32 bs in
      if id = 0 then (Inl (Error ZeroStreamId 0), f)
      else if Flags h \<noteq> 0 then (Inl (Error InvalidControlFrame id), f)
      else (Inr \<lparr>Ping_CFHeader = h, Ping_Id = id\<rparr>, f))"

definition GoAwayFrame_read ::
  "ControlFrameHeader \<Rightarrow> ('c, 'd) Framer \<Rightarrow> (error + GoAwayFrame) \<times> ('c, 'd) Framer" where
  "GoAwayFrame_read h f =
     (case fread 4 f of (Inl err, f) \<Rightarrow> (Inl (IOError err), f) | (Inr bs, f) \<Rightarrow>
      let lastGoodStreamId = Uint32 bs in
      if Flags h \<noteq> 0 then (Inl (Error InvalidControlFrame lastGoodStreamId), f)
      else if length' h \<noteq> 8 then (Inl (Error InvalidControlFrame lastGoodStreamId), f)
      else
      case fread 4 f of (Inl err, f) \<Rightarrow> (Inl (IOError err), f) | (Inr bs, f) \<Rightarrow>
      (Inr \<lparr>GoAway_CFHeader = h, LastGoodStreamId = lastGoodStreamId, GoAwayStatus = Uint32 bs\<rparr>, f))"

definition WindowUpdateFrame_read ::
  "ControlFrameHeader \<Rightarrow> ('c, 'd) Framer \<Rightarrow> (error + WindowUpdateFrame) \<times> ('c, 'd) Framer" where
  "WindowUpdateFrame_read h f =
     (case fread 4 f of (Inl err, f) \<Rightarrow> (Inl (IOError err), f) | (Inr bs, f) \<Rightarrow>
      let streamId = Uint32 bs in
      if Flags h \<noteq> 0 then (Inl (Error InvalidControlFrame streamId), f)
      else if length' h \<noteq> 8 then (Inl (Error InvalidControlFrame streamId), f)
      else
      case fread 4 f of (Inl err, f) \<Rightarrow> (Inl (IOError err), f) | (Inr bs, f) \<Rightarrow>
      (Inr \<lparr>WindowUpdate_CFHeader = h, WindowUpdate_StreamId = streamId, DeltaWindowSize = Uint32 bs\<rparr>, f))"

text \<open>The four fixed fields that \<^verbatim>\<open>readSynStreamFrame\<close> reads first; the priority byte is
  shifted right by 5.\<close>

definition readSynStreamFields ::
  "ControlFrameHeader \<Rightarrow> ('c, 'd) Framer \<Rightarrow> (ioerror + SynStreamFrame) \<times> ('c, 'd) Framer" where
  "readSynStreamFields h f =
     (case fread 4 f of (Inl err, f) \<Rightarrow> (Inl err, f) | (Inr bs, f) \<Rightarrow>
      let streamId = Uint32 bs in
      case fread 4 f of (Inl err, f) \<Rightarrow> (Inl err, f) | (Inr bs, f) \<Rightarrow>
      let associatedToStreamId = Uint32 bs in
      case fread 1 f of (Inl err, f) \<Rightarrow> (Inl err, f) | (Inr bs, f) \<Rightarrow>
      let priority = drop_bit 5 (hd bs) in
      case fread 1 f of (Inl err, f) \<Rightarrow> (Inl err, f) | (Inr bs, f) \<Rightarrow>
      (Inr \<lparr>SynStream_CFHeader = h, SynStream_StreamId = streamId,
            AssociatedToStreamId = associatedToStreamId, Priority = priority, Slot = hd bs,
            SynStream_Headers = []\<rparr>, f))"

text \<open>\<^verbatim>\<open>readSynStreamFrame\<close> from the call of \<^verbatim>\<open>parseHeaderValueBlock\<close> to its end.\<close>

definition finishSynStreamFrame ::
  "('c, 'd) zlib \<Rightarrow> SynStreamFrame \<Rightarrow> ('c, 'd) Framer \<Rightarrow> (error + SynStreamFrame) \<times> ('c, 'd) Framer" where
  "finishSynStreamFrame z frame f =
     (case decodeHeaders z (SynStream_StreamId frame) f of
        ((headers, Some err), f) \<Rightarrow> (Inl err, f)
      | ((headers, None), f) \<Rightarrow>
        let frame = frame\<lparr>SynStream_Headers := headers\<rparr> in
        if hasInvalidHeader invalidReqHeaders (SynStream_Headers frame)
          then (Inl (Error InvalidHeaderPresent (SynStream_StreamId frame)), f)
        else if SynStream_StreamId frame = 0 then (Inl (Error ZeroStreamId 0), f)
        else (Inr frame, f))"

definition readSynStreamFrame ::
  "('c, 'd) zlib \<Rightarrow> ControlFrameHeader \<Rightarrow> ('c, 'd) Framer \<Rightarrow> (error + SynStreamFrame) \<times> ('c, 'd) Framer" where
  "readSynStreamFrame z h f =
     (case readSynStreamFields h f of (Inl err, f) \<Rightarrow> (Inl (IOError err), f) | (Inr frame, f) \<Rightarrow>
      case uncork z (length' h - 10) f of
        (Some err, f) \<Rightarrow> (Inl (IOError err), f)
      | (None, f) \<Rightarrow> finishSynStreamFrame z frame f)"

definition readSynReplyFrame ::
  "('c, 'd) zlib \<Rightarrow> ControlFrameHeader \<Rightarrow> ('c, 'd) Framer \<Rightarrow> (error + SynReplyFrame) \<times> ('c, 'd) Framer" where
  "readSynReplyFrame z h f =
     (case fread 4 f of (Inl err, f) \<Rightarrow> (Inl (IOError err), f) | (Inr bs, f) \<Rightarrow>
      let streamId = Uint32 bs in
      case uncork z (length' h - 4) f of
        (Some err, f) \<Rightarrow> (Inl (IOError err), f)
      | (None, f) \<Rightarrow>
      case decodeHeaders z streamId f of
        ((headers, Some err), f) \<Rightarrow> (Inl err, f)
      | ((headers, None), f) \<Rightarrow>
        if hasInvalidHeader invalidRespHeaders headers
          then (Inl (Error InvalidHeaderPresent streamId), f)
        else if streamId = 0 then (Inl (Error ZeroStreamId 0), f)
        else (Inr \<lparr>SynReply_CFHeader = h, SynReply_StreamId = streamId, SynReply_Headers = headers\<rparr>, f))"

definition readHeadersFrame ::
  "('c, 'd) zlib \<Rightarrow> ControlFrameHeader \<Rightarrow> ('c, 'd) Framer \<Rightarrow> (error + HeadersFrame) \<times> ('c, 'd) Framer" where
  "readHeadersFrame z h f =
     (case fread 4 f of (Inl err, f) \<Rightarrow> (Inl (IOError err), f) | (Inr bs, f) \<Rightarrow>
      let streamId = Uint32 bs in
      case uncork z (length' h - 4) f of
        (Some err, f) \<Rightarrow> (Inl (IOError err), f)
      | (None, f) \<Rightarrow>
      case decodeHeaders z streamId f of
        ((headers, Some err), f) \<Rightarrow> (Inl err, f)
      | ((headers, None), f) \<Rightarrow>
        let invalidHeaders = (if unat streamId mod 2 = 0 then invalidReqHeaders else invalidRespHeaders) in
        if hasInvalidHeader invalidHeaders headers
          then (Inl (Error InvalidHeaderPresent streamId), f)
        else if streamId = 0 then (Inl (Error ZeroStreamId 0), f)
        else (Inr \<lparr>Headers_CFHeader = h, Headers_StreamId = streamId, Headers_Headers = headers\<rparr>, f))"

definition parseDataFrame ::
  "uint32 \<Rightarrow> ('c, 'd) Framer \<Rightarrow> (error + DataFrame) \<times> ('c, 'd) Framer" where
  "parseDataFrame streamId f =
     (case fread 4 f of (Inl err, f) \<Rightarrow> (Inl (IOError err), f) | (Inr bs, f) \<Rightarrow>
      let length = Uint32 bs;
          flags = (ucast (drop_bit 24 length) :: byte);
          length = length AND 0xffffff
      in
      case fread (unat length) f of (Inl err, f) \<Rightarrow> (Inl (IOError err), f) | (Inr data, f) \<Rightarrow>
      if streamId = 0 then (Inl (Error ZeroStreamId 0), f)
      else (Inr \<lparr>Data_StreamId = streamId, Data_Flags = flags, Data = data\<rparr>, f))"

text \<open>\<^verbatim>\<open>newControlFrame\<close> looks the type up in \<^verbatim>\<open>cframeCtor\<close>, and \<^verbatim>\<open>parseControlFrame\<close>
  calls the \<^verbatim>\<open>read\<close> method of the value it gets; \<open>cframeRead\<close> is that table with the
  method each constructor leads to, \<open>None\<close> for a type that is not a key.\<close>

definition wrapF :: "('a \<Rightarrow> Frame) \<Rightarrow> (error + 'a) \<times> 's \<Rightarrow> (error + Frame) \<times> 's" where
  "wrapF C m = (case m of (x, f) \<Rightarrow> (map_sum id C x, f))"

definition cframeRead ::
  "('c, 'd) zlib \<Rightarrow> uint16
     \<Rightarrow> (ControlFrameHeader \<Rightarrow> ('c, 'd) Framer \<Rightarrow> (error + Frame) \<times> ('c, 'd) Framer) option" where
  "cframeRead z ftype =
     (if ftype = TypeSynStream then Some (\<lambda>h f. wrapF SynStream (readSynStreamFrame z h f))
      else if ftype = TypeSynReply then Some (\<lambda>h f. wrapF SynReply (readSynReplyFrame z h f))
      else if ftype = TypeRstStream then Some (\<lambda>h f. wrapF RstStream (RstStreamFrame_read h f))
      else if ftype = TypeSettings then Some (\<lambda>h f. wrapF Settings (SettingsFrame_read h f))
      else if ftype = TypePing then Some (\<lambda>h f. wrapF Ping (PingFrame_read h f))
      else if ftype = TypeGoAway then Some (\<lambda>h f. wrapF GoAway (GoAwayFrame_read h f))
      else if ftype = TypeHeaders then Some (\<lambda>h f. wrapF Headers (readHeadersFrame z h f))
      else if ftype = TypeWindowUpdate then Some (\<lambda>h f. wrapF WindowUpdate (WindowUpdateFrame_read h f))
      else None)"

definition parseControlFrame ::
  "('c, 'd) zlib \<Rightarrow> uint16 \<Rightarrow> uint16 \<Rightarrow> ('c, 'd) Framer \<Rightarrow> (error + Frame) \<times> ('c, 'd) Framer" where
  "parseControlFrame z ver ftype f =
     (case fread 4 f of (Inl err, f) \<Rightarrow> (Inl (IOError err), f) | (Inr bs, f) \<Rightarrow>
      let length = Uint32 bs;
          flags = (ucast (drop_bit 24 (length AND 0xff000000)) :: byte);
          length = length AND 0xffffff;
          header = \<lparr>version = ver, frameType = ftype, Flags = flags, length' = length\<rparr>
      in
      case cframeRead z ftype of
        None \<Rightarrow> (Inl (Error InvalidControlFrame 0), f)
      | Some read \<Rightarrow> read header f)"

definition ReadFrame :: "('c, 'd) zlib \<Rightarrow> ('c, 'd) Framer \<Rightarrow> (error + Frame) \<times> ('c, 'd) Framer" where
  "ReadFrame z f =
     (case fread 4 f of (Inl err, f) \<Rightarrow> (Inl (IOError err), f) | (Inr bs, f) \<Rightarrow>
      let firstWord = Uint32 bs in
      if firstWord AND 0x80000000 \<noteq> 0 then
        let ftype = (ucast (firstWord AND 0xffff) :: uint16);
            ver = (ucast (0x7fff AND drop_bit 16 firstWord) :: uint16)
        in parseControlFrame z ver ftype f
      else wrapF DataF (parseDataFrame (firstWord AND 0x7fffffff) f))"

section \<open>A pass-through codec\<close>

text \<open>An instance of the zlib interface that stores the bytes as they are, to run the
  Framer on concrete inputs: the compressor emits what it is given, the decompressor reads
  through the bounded reader, at most \<^verbatim>\<open>N\<close> bytes.\<close>

definition storedReadFull :: "unit \<Rightarrow> nat \<Rightarrow> byte list \<times> int \<Rightarrow> (ioerror + byte list) \<times> unit \<times> byte list \<times> int" where
  "storedReadFull d n lr = (case lr of (src, N) \<Rightarrow>
     (let avail = min (nat N) (length src) in
      if n \<le> avail then (Inr (take n src), (), drop n src, N - int n)
      else (Inl (if avail = 0 then EOF else ErrUnexpectedEOF), (), drop avail src, N - int avail)))"

definition stored :: "(unit, unit) zlib" where
  "stored = \<lparr>zWrite = (\<lambda>c p. (None, c, p)), zFlush = (\<lambda>c. (c, [])),
             NewReaderDict = (\<lambda>lr. Inr ((), lr)), zReadFull = storedReadFull\<rparr>"

text \<open>A Framer on an empty sink that never fails, with the input \<open>src\<close>.\<close>

definition newFramer :: "bool \<Rightarrow> byte list \<Rightarrow> (unit, unit) Framer" where
  "newFramer disabled src =
     \<lparr>headerCompressionDisabled = disabled, Framer_w = \<lparr>written = [], room = None\<rparr>,
      headerBuf = [], headerCompressor = (), Framer_r = src, headerReader_N = 0,
      headerDecompressor = None\<rparr>"


section \<open>Observations\<close>

text \<open>The bytes a call added to the sink, and the 24-bit length field of a frame that
  starts with the 8-byte common header.\<close>

definition emitted :: "('c, 'd) Framer \<Rightarrow> ('c, 'd) Framer \<Rightarrow> byte list" where
  "emitted f f' = drop (length (written (Framer_w f))) (written (Framer_w f'))"

definition lengthField :: "byte list \<Rightarrow> nat" where
  "lengthField bs = unat (Uint32 (take 4 (drop 4 bs)) AND 0xffffff)"

fun isControl :: "Frame \<Rightarrow> bool" where
  "isControl (DataF frame) = False"
| "isControl frame = True"

text \<open>The eight bytes \<^verbatim>\<open>writeControlFrameHeader\<close> sends for a header.\<close>

definition controlHeaderBytes :: "ControlFrameHeader \<Rightarrow> byte list" where
  "controlHeaderBytes h =
     PutUint16 (0x8000 OR version h) @ PutUint16 (frameType h) @
     PutUint32 (push_bit 24 (ucast (Flags h) :: uint32) OR length' h)"

text \<open>What a successful write of a control frame has put into the sink: the eight bytes
  of some header and a payload whose size, as a 32-bit value, is the header's length.\<close>

definition wroteControl :: "('c, 'd) Framer \<Rightarrow> ('c, 'd) Framer \<Rightarrow> bool" where
  "wroteControl f f' \<longleftrightarrow>
     (\<exists>h payload. written (Framer_w f') = written (Framer_w f) @ controlHeaderBytes h @ payload
        \<and> length' h = of_nat (length payload))"

section \<open>Concrete inputs\<close>

definition zeroHeader :: ControlFrameHeader where
  "zeroHeader = \<lparr>version = 0, frameType = 0, Flags = 0, length' = 0\<rparr>"

text \<open>A Settings frame with \<open>2\<^sup>2\<^sup>1\<close> entries: its payload has \<open>2\<^sup>2\<^sup>4 + 4\<close> bytes.\<close>

definition largeSettings :: Frame where
  "largeSettings = Settings \<lparr>Settings_CFHeader = zeroHeader,
                              FlagIdValues = replicate 2097152 \<lparr>Flag = 0, Id = 0, Value = 0\<rparr>\<rparr>"

text \<open>A Data frame with \<open>2\<^sup>2\<^sup>4\<close> bytes of data, one more than \<open>MaxDataLength\<close>.\<close>

definition largeData :: DataFrame where
  "largeData = \<lparr>Data_StreamId = 1, Data_Flags = 0, Data = replicate 16777216 0\<rparr>"

definition synStreamGet :: SynStreamFrame where
  "synStreamGet = \<lparr>SynStream_CFHeader = zeroHeader, SynStream_StreamId = 1, AssociatedToStreamId = 0,
                    Priority = 3, Slot = 0, SynStream_Headers = [('':method'', [''GET''])]\<rparr>"

section \<open>Header blocks in a byte buffer\<close>

text \<open>A \<^verbatim>\<open>bytes.Buffer\<close> as the writer of a header block, the bytes the serializer writes
  for one entry, the header with every name in the canonical form that \<^verbatim>\<open>Add\<close> stores it
  under, and the headers the round trip is stated for: distinct names in lowercase ASCII,
  at least one value per name, no NUL byte in a value, and sizes that fit the 32-bit
  fields.\<close>

definition bufWrite :: "byte list \<Rightarrow> byte list \<Rightarrow> ioerror option \<times> byte list" where
  "bufWrite p buf = (None, buf @ p)"

definition entryBytes :: "string \<times> string list \<Rightarrow> byte list" where
  "entryBytes e = (case e of (name, values) \<Rightarrow>
     PutUint32 (of_nat (length name)) @ bytes_of (ToLower name) @
     PutUint32 (of_nat (length (Join values headerValueSeparator))) @
     bytes_of (Join values headerValueSeparator))"

definition canonicalKeys :: "Header \<Rightarrow> Header" where
  "canonicalKeys h = map (\<lambda>(name, values). (CanonicalMIMEHeaderKey name, values)) h"

definition lowercaseASCII :: "string \<Rightarrow> bool" where
  "lowercaseASCII name = list_all (\<lambda>c. (of_char c :: nat) < 128 \<and> \<not> (65 \<le> (of_char c :: nat) \<and> (of_char c :: nat) \<le> 90)) name"

definition validEntry :: "string \<times> string list \<Rightarrow> bool" where
  "validEntry e = (case e of (name, values) \<Rightarrow>
     lowercaseASCII name \<and> length name < 2 ^ 32 \<and> values \<noteq> [] \<and>
     list_all (\<lambda>v. CHR 0x00 \<notin> set v) values \<and>
     length (Join values headerValueSeparator) < 2 ^ 32)"

definition validHeader :: "Header \<Rightarrow> bool" where
  "validHeader h = (distinct (map fst h) \<and> length h < 2 ^ 32 \<and> list_all validEntry h)"

text \<open>A header-block entry and a SynReply frame for stream 1 as they stand on the wire
  when compression is disabled.\<close>

definition headerEntry :: "string \<Rightarrow> string \<Rightarrow> byte list" where
  "headerEntry name v =
     PutUint32 (of_nat (length name)) @ bytes_of name @ PutUint32 (of_nat (length v)) @ bytes_of v"

definition synReplyWire :: "byte list list \<Rightarrow> byte list" where
  "synReplyWire entries =
     [0x80, 0x03, 0x00, 0x02] @ PutUint32 (of_nat (8 + length (concat entries))) @
     PutUint32 1 @ PutUint32 (of_nat (length entries)) @ concat entries"

section \<open>Encoding and sink lemmas\<close>

lemma length_PutUint32 [simp]: "length (PutUint32 v) = 4" by (simp add: PutUint32_def)
lemma length_PutUint16 [simp]: "length (PutUint16 v) = 2" by (simp add: PutUint16_def)

lemma andThen_NoneE:
  assumes "andThen m k = (None, s')"
  obtains s1 where "m = (None, s1)" "k s1 = (None, s')"
  using assms by (auto simp: andThen_def split: prod.splits option.splits)

lemma lift_io_None [simp]: "lift_io m = (None, s) \<longleftrightarrow> m = (None, s)"
  by (cases m) (auto simp: lift_io_def)

lemma fwrite_NoneD:
  assumes "fwrite p f = (None, f')"
  shows "written (Framer_w f') = written (Framer_w f) @ p" "headerBuf f' = headerBuf f"
  using assms by (auto simp: fwrite_def Write_def split: option.splits if_splits)

lemma wcfh_NoneD:
  assumes "writeControlFrameHeader h f = (None, f')"
  shows "written (Framer_w f') = written (Framer_w f) @ controlHeaderBytes h" "headerBuf f' = headerBuf f"
proof -
  from assms obtain f1 f2 where
    1: "fwrite (PutUint16 (0x8000 OR version h)) f = (None, f1)" and
    2: "fwrite (PutUint16 (frameType h)) f1 = (None, f2)" and
    3: "fwrite (PutUint32 (push_bit 24 (ucast (Flags h) :: uint32) OR length' h)) f2 = (None, f')"
    unfolding writeControlFrameHeader_def Let_def by (elim andThen_NoneE) 
  show "written (Framer_w f') = written (Framer_w f) @ controlHeaderBytes h"
    using fwrite_NoneD(1)[OF 1] fwrite_NoneD(1)[OF 2] fwrite_NoneD(1)[OF 3]
    by (simp add: controlHeaderBytes_def)
  show "headerBuf f' = headerBuf f"
    using fwrite_NoneD(2)[OF 1] fwrite_NoneD(2)[OF 2] fwrite_NoneD(2)[OF 3] by simp
qed

lemma writeFlagIdValues_NoneD:
  "writeFlagIdValues es f = (None, f') \<Longrightarrow>
     \<exists>bs. written (Framer_w f') = written (Framer_w f) @ bs \<and> length bs = 8 * length es"
proof (induction es arbitrary: f)
  case Nil
  then show ?case by simp
next
  case (Cons e es)
  from Cons.prems obtain f1 f2 where
    1: "fwrite (PutUint32 (push_bit 24 (ucast (Flag e) :: uint32) OR Id e)) f = (None, f1)" and
    2: "fwrite (PutUint32 (Value e)) f1 = (None, f2)" and
    3: "writeFlagIdValues es f2 = (None, f')"
    unfolding writeFlagIdValues.simps Let_def by (elim andThen_NoneE)
  from Cons.IH[OF 3] obtain bs where
    bs: "written (Framer_w f') = written (Framer_w f2) @ bs" "length bs = 8 * length es" by blast
  show ?case
    using fwrite_NoneD(1)[OF 1] fwrite_NoneD(1)[OF 2] bs
    by (intro exI[of _ "PutUint32 (push_bit 24 (ucast (Flag e) :: uint32) OR Id e) @ PutUint32 (Value e) @ bs"]) simp
qed


lemma andThen_inv:
  assumes "andThen m k = (e, s')" and "g (snd m) = g s0"
    and "\<And>s1 e s'. k s1 = (e, s') \<Longrightarrow> g s' = g s1"
  shows "g s' = g s0"
  using assms by (cases m) (auto simp: andThen_def split: option.splits)

lemma writeHeaderEntries_inv:
  assumes wr: "\<And>p s e s'. wr p s = (e, s') \<Longrightarrow> g s' = g s"
  shows "writeHeaderEntries wr h s = (e, s') \<Longrightarrow> g s' = g s"
proof (induction h arbitrary: s e s')
  case Nil
  then show ?case by simp
next
  case (Cons a h)
  obtain name vs where a: "a = (name, vs)" by (cases a)
  have step: "g (snd (wr p s0)) = g s0" for p s0
    using wr[of p s0] by (cases "wr p s0") simp
  show ?case
    using Cons.prems unfolding a writeHeaderEntries.simps Let_def
    apply (rule andThen_inv) apply (rule step)
    apply (erule andThen_inv) apply (rule step)
    apply (erule andThen_inv) apply (rule step)
    apply (erule andThen_inv) apply (rule step)
    apply (erule Cons.IH)
    done
qed

lemma marshalHeaders_sink:
  assumes "marshalHeaders z h f = (e, f')"
  shows "Framer_w f' = Framer_w f"
proof -
  define wr where "wr = (if \<not> headerCompressionDisabled f then headerCompressor_Write z else headerBuf_Write)"
  have wr: "Framer_w s' = Framer_w s" if "wr p s = (e, s')" for p s e s'
    using that by (auto simp: wr_def headerBuf_Write_def headerCompressor_Write_def split: if_splits prod.splits)
  have step: "Framer_w (snd (wr p s0)) = Framer_w s0" for p s0
    using wr[of p s0] by (cases "wr p s0") simp
  have ent: "Framer_w s' = Framer_w s" if "writeHeaderEntries wr h s = (e, s')" for s e s'
    by (rule writeHeaderEntries_inv[where g = Framer_w and wr = wr, OF wr that])
  have blk: "Framer_w s' = Framer_w f" if "writeHeaderValueBlock wr h f = (e, s')" for e s'
    using that unfolding writeHeaderValueBlock_def
    by (rule andThen_inv[where g = Framer_w, OF _ step ent])
  have fl: "Framer_w (if \<not> headerCompressionDisabled s then headerCompressor_Flush z s else s) = Framer_w s" for s
    by (auto simp: headerCompressor_Flush_def split: prod.splits)
  show ?thesis
    using assms unfolding marshalHeaders_def Let_def wr_def[symmetric]
    by (cases "writeHeaderValueBlock wr h f") (auto simp: andThen_def fl dest: blk split: option.splits)
qed

lemma take_bit_24_of_nat: "n < 2 ^ 24 \<Longrightarrow> unat ((word_of_nat n :: uint32) AND 0xffffff) = n"
proof -
  assume n: "n < 2 ^ 24"
  have "(0xffffff :: uint32) = mask 24" by (simp add: mask_eq_exp_minus_1)
  then have "unat ((word_of_nat n :: uint32) AND 0xffffff) = unat (take_bit 24 (word_of_nat n :: uint32))"
    by (simp add: take_bit_eq_mask)
  also have "\<dots> = take_bit 24 (unat (word_of_nat n :: uint32))"
    by (simp add: unsigned_take_bit_eq)
  also have "\<dots> = n" using n by (simp add: unat_of_nat take_bit_nat_eq_self)
  finally show ?thesis .
qed

lemma low24: "(push_bit 24 (ucast (b::byte) :: uint32) OR l) AND 0xffffff = l AND 0xffffff"
proof -
  have m: "(0xffffff :: uint32) = mask 24" by (simp add: mask_eq_exp_minus_1)
  show ?thesis unfolding m by (rule bit_word_eqI) (auto simp add: bit_simps)
qed

lemma Uint32_PutUint32 [simp]: "Uint32 (PutUint32 v) = v"
proof -
  have "push_bit 24 (ucast (ucast (drop_bit 24 v) :: byte) :: uint32)
        OR push_bit 16 (ucast (ucast (drop_bit 16 v) :: byte))
        OR push_bit 8 (ucast (ucast (drop_bit 8 v) :: byte))
        OR ucast (ucast v :: byte) = v"
  proof (rule bit_word_eqI)
    fix n assume n: "n < LENGTH(32)"
    consider "n < 8" | "8 \<le> n" "n < 16" | "16 \<le> n" "n < 24" | "24 \<le> n" "n < 32"
      using n by fastforce
    then show "bit (push_bit 24 (ucast (ucast (drop_bit 24 v) :: byte) :: uint32)
        OR push_bit 16 (ucast (ucast (drop_bit 16 v) :: byte))
        OR push_bit 8 (ucast (ucast (drop_bit 8 v) :: byte))
        OR ucast (ucast v :: byte)) n = bit v n"
      by cases (auto simp add: bit_simps)
  qed
  then show ?thesis by (simp add: Uint32_def PutUint32_def)
qed

lemma lengthField_header:
  "lengthField (controlHeaderBytes h @ payload) = unat (length' h AND 0xffffff)"
proof -
  have "take 4 (drop 4 (controlHeaderBytes h @ payload)) = PutUint32 (push_bit 24 (ucast (Flags h) :: uint32) OR length' h)"
    by (simp add: controlHeaderBytes_def)
  then show ?thesis by (simp add: lengthField_def low24)
qed

lemma length_controlHeaderBytes [simp]: "length (controlHeaderBytes h) = 8"
  by (simp add: controlHeaderBytes_def)

lemma Ping_wrote: "PingFrame_write frame f = (None, frame', f') \<Longrightarrow> wroteControl f f'"
  unfolding PingFrame_write_def Let_def wroteControl_def
  apply (clarsimp split: if_splits prod.splits)
  apply (erule andThen_NoneE)
  apply (drule wcfh_NoneD(1))
  apply (drule fwrite_NoneD(1))
  subgoal for f1
    by (intro exI[of _ "(Ping_CFHeader frame)\<lparr>version := Version, frameType := TypePing, Flags := 0, length' := 4\<rparr>"]
          exI[of _ "PutUint32 (Ping_Id frame)"]) simp
  done


lemma GoAway_wrote: "GoAwayFrame_write frame f = (None, frame', f') \<Longrightarrow> wroteControl f f'"
  unfolding GoAwayFrame_write_def Let_def wroteControl_def
  apply (clarsimp split: if_splits prod.splits)
  apply (elim andThen_NoneE)
  apply (drule wcfh_NoneD(1))
  apply (drule fwrite_NoneD(1))+
  subgoal
    by (intro exI[of _ "(GoAway_CFHeader frame)\<lparr>version := Version, frameType := TypeGoAway, Flags := 0, length' := 8\<rparr>"]
          exI[of _ "PutUint32 (LastGoodStreamId frame) @ PutUint32 (GoAwayStatus frame)"]) simp
  done

lemma WindowUpdate_wrote: "WindowUpdateFrame_write frame f = (None, frame', f') \<Longrightarrow> wroteControl f f'"
  unfolding WindowUpdateFrame_write_def Let_def wroteControl_def
  apply (clarsimp split: if_splits prod.splits)
  apply (elim andThen_NoneE)
  apply (drule wcfh_NoneD(1))
  apply (drule fwrite_NoneD(1))+
  subgoal
    by (intro exI[of _ "(WindowUpdate_CFHeader frame)\<lparr>version := Version, frameType := TypeWindowUpdate, Flags := 0, length' := 8\<rparr>"]
          exI[of _ "PutUint32 (WindowUpdate_StreamId frame) @ PutUint32 (DeltaWindowSize frame)"]) simp
  done

lemma RstStream_wrote: "RstStreamFrame_write frame f = (None, frame', f') \<Longrightarrow> wroteControl f f'"
  unfolding RstStreamFrame_write_def Let_def wroteControl_def
  apply (clarsimp split: if_splits prod.splits option.splits)
  apply (drule wcfh_NoneD(1))
  apply (drule fwrite_NoneD(1))+
  subgoal
    by (intro exI[of _ "(RstStream_CFHeader frame)\<lparr>version := Version, frameType := TypeRstStream, Flags := 0, length' := 8\<rparr>"]
          exI[of _ "PutUint32 (RstStream_StreamId frame) @ PutUint32 (Status frame)"]) simp
  done

lemma Settings_wrote: "SettingsFrame_write frame f = (None, frame', f') \<Longrightarrow> wroteControl f f'"
  unfolding SettingsFrame_write_def Let_def wroteControl_def
  apply (clarsimp split: if_splits prod.splits)
  apply (elim andThen_NoneE)
  apply (drule wcfh_NoneD(1))
  apply (drule fwrite_NoneD(1))
  apply (drule writeFlagIdValues_NoneD)
  apply (erule exE)
  subgoal for f1 f2 bs
    by (intro exI[of _ "(Settings_CFHeader frame)\<lparr>version := Version, frameType := TypeSettings,
             length' := of_nat (length (FlagIdValues frame) * 8 + 4)\<rparr>"]
          exI[of _ "PutUint32 (of_nat (length (FlagIdValues frame))) @ bs"]) (simp add: mult.commute)
  done

lemma writeSynStreamFrame_NoneD:
  assumes "writeSynStreamFrame z frame f = (None, frame', f')"
  obtains hb where
    "written (Framer_w f') = written (Framer_w f) @ controlHeaderBytes (SynStream_CFHeader frame')
       @ PutUint32 (SynStream_StreamId frame) @ PutUint32 (AssociatedToStreamId frame)
       @ [push_bit 5 (Priority frame), Slot frame] @ hb"
    "frame' = frame\<lparr>SynStream_CFHeader := (SynStream_CFHeader frame)
       \<lparr>version := Version, frameType := TypeSynStream, length' := of_nat (length hb + 10)\<rparr>\<rparr>"
proof -
  from assms obtain fm f5 where
    m: "marshalHeaders z (SynStream_Headers frame) f = (None, fm)" and
    fr: "frame' = frame\<lparr>SynStream_CFHeader := (SynStream_CFHeader frame)
       \<lparr>version := Version, frameType := TypeSynStream, length' := of_nat (length (headerBuf fm) + 10)\<rparr>\<rparr>" and
    w: "andThen (writeControlFrameHeader (SynStream_CFHeader frame') fm) (\<lambda>f.
           andThen (fwrite (PutUint32 (SynStream_StreamId frame')) f) (\<lambda>f.
           andThen (fwrite (PutUint32 (AssociatedToStreamId frame')) f) (\<lambda>f.
           andThen (fwrite [push_bit 5 (Priority frame')] f) (\<lambda>f.
           andThen (fwrite [Slot frame'] f) (\<lambda>f.
           fwrite (headerBuf f) f))))) = (None, f5)" and
    f': "f' = f5\<lparr>headerBuf := []\<rparr>"
    unfolding writeSynStreamFrame_def Let_def
    by (auto split: if_splits prod.splits option.splits)
  from w obtain f0 f1 f2 f3 f4 where
    0: "writeControlFrameHeader (SynStream_CFHeader frame') fm = (None, f0)" and
    1: "fwrite (PutUint32 (SynStream_StreamId frame')) f0 = (None, f1)" and
    2: "fwrite (PutUint32 (AssociatedToStreamId frame')) f1 = (None, f2)" and
    3: "fwrite [push_bit 5 (Priority frame')] f2 = (None, f3)" and
    4: "fwrite [Slot frame'] f3 = (None, f4)" and
    5: "fwrite (headerBuf f4) f4 = (None, f5)"
    by (elim andThen_NoneE)
  have hb: "headerBuf f4 = headerBuf fm"
    using wcfh_NoneD(2)[OF 0] fwrite_NoneD(2)[OF 1] fwrite_NoneD(2)[OF 2] fwrite_NoneD(2)[OF 3]
      fwrite_NoneD(2)[OF 4] by simp
  have "written (Framer_w f') = written (Framer_w f) @ controlHeaderBytes (SynStream_CFHeader frame')
       @ PutUint32 (SynStream_StreamId frame) @ PutUint32 (AssociatedToStreamId frame)
       @ [push_bit 5 (Priority frame), Slot frame] @ headerBuf fm"
    using wcfh_NoneD(1)[OF 0] fwrite_NoneD(1)[OF 1] fwrite_NoneD(1)[OF 2] fwrite_NoneD(1)[OF 3]
      fwrite_NoneD(1)[OF 4] fwrite_NoneD(1)[OF 5] hb marshalHeaders_sink[OF m] f' fr
    by simp
  then show ?thesis using fr that by blast
qed

lemma SynStream_wrote: "writeSynStreamFrame z frame f = (None, frame', f') \<Longrightarrow> wroteControl f f'"
  by (erule writeSynStreamFrame_NoneD) (auto simp: wroteControl_def intro!: exI)


lemma writeSynReplyFrame_NoneD:
  assumes "writeSynReplyFrame z frame f = (None, frame', f')"
  obtains hb where
    "written (Framer_w f') = written (Framer_w f) @ controlHeaderBytes (SynReply_CFHeader frame')
       @ PutUint32 (SynReply_StreamId frame) @ hb"
    "frame' = frame\<lparr>SynReply_CFHeader := (SynReply_CFHeader frame)
       \<lparr>version := Version, frameType := TypeSynReply, length' := of_nat (length hb + 4)\<rparr>\<rparr>"
proof -
  from assms obtain fm f2 where
    m: "marshalHeaders z (SynReply_Headers frame) f = (None, fm)" and
    fr: "frame' = frame\<lparr>SynReply_CFHeader := (SynReply_CFHeader frame)
       \<lparr>version := Version, frameType := TypeSynReply, length' := of_nat (length (headerBuf fm) + 4)\<rparr>\<rparr>" and
    w: "andThen (writeControlFrameHeader (SynReply_CFHeader frame') fm) (\<lambda>f.
           andThen (fwrite (PutUint32 (SynReply_StreamId frame')) f) (\<lambda>f.
           fwrite (headerBuf f) f)) = (None, f2)" and
    f': "f' = f2\<lparr>headerBuf := []\<rparr>"
    unfolding writeSynReplyFrame_def Let_def
    by (auto split: if_splits prod.splits option.splits)
  from w obtain f0 f1 where
    0: "writeControlFrameHeader (SynReply_CFHeader frame') fm = (None, f0)" and
    1: "fwrite (PutUint32 (SynReply_StreamId frame')) f0 = (None, f1)" and
    2: "fwrite (headerBuf f1) f1 = (None, f2)"
    by (elim andThen_NoneE)
  have hb: "headerBuf f1 = headerBuf fm"
    using wcfh_NoneD(2)[OF 0] fwrite_NoneD(2)[OF 1] by simp
  have "written (Framer_w f') = written (Framer_w f) @ controlHeaderBytes (SynReply_CFHeader frame')
       @ PutUint32 (SynReply_StreamId frame) @ headerBuf fm"
    using wcfh_NoneD(1)[OF 0] fwrite_NoneD(1)[OF 1] fwrite_NoneD(1)[OF 2] hb marshalHeaders_sink[OF m] f' fr
    by simp
  then show ?thesis using fr that by blast
qed

lemma SynReply_wrote: "writeSynReplyFrame z frame f = (None, frame', f') \<Longrightarrow> wroteControl f f'"
  by (erule writeSynReplyFrame_NoneD) (auto simp: wroteControl_def intro!: exI)

lemma writeHeadersFrame_NoneD:
  assumes "writeHeadersFrame z frame f = (None, frame', f')"
  obtains hb where
    "written (Framer_w f') = written (Framer_w f) @ controlHeaderBytes (Headers_CFHeader frame')
       @ PutUint32 (Headers_StreamId frame) @ hb"
    "frame' = frame\<lparr>Headers_CFHeader := (Headers_CFHeader frame)
       \<lparr>version := Version, frameType := TypeHeaders, length' := of_nat (length hb + 4)\<rparr>\<rparr>"
proof -
  from assms obtain fm f2 where
    m: "marshalHeaders z (Headers_Headers frame) f = (None, fm)" and
    fr: "frame' = frame\<lparr>Headers_CFHeader := (Headers_CFHeader frame)
       \<lparr>version := Version, frameType := TypeHeaders, length' := of_nat (length (headerBuf fm) + 4)\<rparr>\<rparr>" and
    w: "andThen (writeControlFrameHeader (Headers_CFHeader frame') fm) (\<lambda>f.
           andThen (fwrite (PutUint32 (Headers_StreamId frame')) f) (\<lambda>f.
           fwrite (headerBuf f) f)) = (None, f2)" and
    f': "f' = f2\<lparr>headerBuf := []\<rparr>"
    unfolding writeHeadersFrame_def Let_def
    by (auto split: if_splits prod.splits option.splits)
  from w obtain f0 f1 where
    0: "writeControlFrameHeader (Headers_CFHeader frame') fm = (None, f0)" and
    1: "fwrite (PutUint32 (Headers_StreamId frame')) f0 = (None, f1)" and
    2: "fwrite (headerBuf f1) f1 = (None, f2)"
    by (elim andThen_NoneE)
  have hb: "headerBuf f1 = headerBuf fm"
    using wcfh_NoneD(2)[OF 0] fwrite_NoneD(2)[OF 1] by simp
  have "written (Framer_w f') = written (Framer_w f) @ controlHeaderBytes (Headers_CFHeader frame')
       @ PutUint32 (Headers_StreamId frame) @ headerBuf fm"
    using wcfh_NoneD(1)[OF 0] fwrite_NoneD(1)[OF 1] fwrite_NoneD(1)[OF 2] hb marshalHeaders_sink[OF m] f' fr
    by simp
  then show ?thesis using fr that by blast
qed

lemma Headers_wrote: "writeHeadersFrame z frame f = (None, frame', f') \<Longrightarrow> wroteControl f f'"
  by (erule writeHeadersFrame_NoneD) (auto simp: wroteControl_def intro!: exI)

lemma WriteFrame_wroteControl:
  assumes "WriteFrame z frame f = (None, frame', f')" and "isControl frame"
  shows "wroteControl f f'"
proof (cases frame)
  case (SynStream x) with assms show ?thesis
    by (auto simp: rewrap_def split: prod.splits dest: SynStream_wrote)
next
  case (SynReply x) with assms show ?thesis
    by (auto simp: rewrap_def split: prod.splits dest: SynReply_wrote)
next
  case (RstStream x) with assms show ?thesis
    by (auto simp: rewrap_def split: prod.splits dest: RstStream_wrote)
next
  case (Settings x) with assms show ?thesis
    by (auto simp: rewrap_def split: prod.splits dest: Settings_wrote)
next
  case (Ping x) with assms show ?thesis
    by (auto simp: rewrap_def split: prod.splits dest: Ping_wrote)
next
  case (GoAway x) with assms show ?thesis
    by (auto simp: rewrap_def split: prod.splits dest: GoAway_wrote)
next
  case (Headers x) with assms show ?thesis
    by (auto simp: rewrap_def split: prod.splits dest: Headers_wrote)
next
  case (WindowUpdate x) with assms show ?thesis
    by (auto simp: rewrap_def split: prod.splits dest: WindowUpdate_wrote)
next
  case (DataF x) with assms show ?thesis by simp
qed

lemma writeFlagIdValues_unlimited:
  "room (Framer_w f) = None \<Longrightarrow>
     \<exists>bs. writeFlagIdValues es f = (None, f\<lparr>Framer_w := (Framer_w f)\<lparr>written := written (Framer_w f) @ bs\<rparr>\<rparr>)
        \<and> length bs = 8 * length es"
proof (induction es arbitrary: f)
  case Nil
  then show ?case by simp
next
  case (Cons e es)
  let ?a = "PutUint32 (push_bit 24 (ucast (Flag e) :: uint32) OR Id e)"
  let ?b = "PutUint32 (Value e)"
  let ?f2 = "f\<lparr>Framer_w := (Framer_w f)\<lparr>written := written (Framer_w f) @ ?a @ ?b\<rparr>\<rparr>"
  have r: "room (Framer_w ?f2) = None" using Cons.prems by simp
  from Cons.IH[OF r] obtain bs where
    bs: "writeFlagIdValues es ?f2 = (None, ?f2\<lparr>Framer_w := (Framer_w ?f2)\<lparr>written := written (Framer_w ?f2) @ bs\<rparr>\<rparr>)"
      "length bs = 8 * length es" by blast
  show ?case
    using Cons.prems bs
    by (intro exI[of _ "?a @ ?b @ bs"]) (simp add: andThen_def fwrite_def Write_def)
qed


section \<open>The length field of control frames\<close>

text \<open>C4 (as amended): for every control frame that \<open>WriteFrame\<close> writes without error and
  whose payload is shorter than \<open>2\<^sup>2\<^sup>4\<close> bytes, the sink has grown by the 8-byte header and the
  payload, and the 24-bit length field of that header is the number of payload bytes.\<close>

theorem C4_length_field_equals_payload:
  assumes "WriteFrame z frame f = (None, frame', f')" and "isControl frame"
    and "length (emitted f f') - 8 < 2 ^ 24"
  shows "written (Framer_w f') = written (Framer_w f) @ emitted f f'
       \<and> 8 \<le> length (emitted f f')
       \<and> lengthField (emitted f f') = length (emitted f f') - 8"
proof -
  from WriteFrame_wroteControl[OF assms(1,2)] obtain h payload where
    w: "written (Framer_w f') = written (Framer_w f) @ controlHeaderBytes h @ payload" and
    l: "length' h = of_nat (length payload)"
    unfolding wroteControl_def by blast
  have e: "emitted f f' = controlHeaderBytes h @ payload"
    by (simp add: emitted_def w)
  have n: "length payload < 2 ^ 24" using assms(3) by (simp add: e)
  show ?thesis
    using w n by (simp add: e lengthField_header l take_bit_24_of_nat)
qed

text \<open>C4, witness: a SynStream frame with one header, through the pass-through codec; the
  length field is 32 and 32 bytes follow the header.\<close>

theorem C4_length_field_witness:
  "lengthField (emitted (newFramer False []) (snd (snd (WriteFrame stored (SynStream synStreamGet) (newFramer False []))))) = 32
   \<and> length (emitted (newFramer False []) (snd (snd (WriteFrame stored (SynStream synStreamGet) (newFramer False []))))) = 40"
proof -
  let ?f' = "(newFramer False [])\<lparr>Framer_w := \<lparr>written =
      [0x80, 0x03, 0x00, 0x01, 0x00, 0x00, 0x00, 0x20, 0x00, 0x00, 0x00, 0x01, 0x00, 0x00, 0x00, 0x00,
       0x60, 0x00, 0x00, 0x00, 0x00, 0x01, 0x00, 0x00, 0x00, 0x07, 0x3a, 0x6d, 0x65, 0x74, 0x68, 0x6f,
       0x64, 0x00, 0x00, 0x00, 0x03, 0x47, 0x45, 0x54], room = None\<rparr>\<rparr>"
  have w: "WriteFrame stored (SynStream synStreamGet) (newFramer False [])
      = (None, SynStream (synStreamGet\<lparr>SynStream_CFHeader := \<lparr>version = 3, frameType = 1, Flags = 0, length' = 32\<rparr>\<rparr>), ?f')"
    by (simp add: synStreamGet_def zeroHeader_def writeSynStreamFrame_def marshalHeaders_def
        writeHeaderValueBlock_def headerCompressor_Write_def headerCompressor_Flush_def stored_def
        headerValueSeparator_def ToLower_def toLowerChar_def bytes_of_def
        rewrap_def lift_io_def andThen_def writeControlFrameHeader_def fwrite_def Write_def
        PutUint16_def PutUint32_def Version_def TypeSynStream_def newFramer_def)
  have l: "length (emitted (newFramer False []) ?f') = 40"
    by (simp add: emitted_def newFramer_def)
  have e: "length (emitted (newFramer False []) ?f') - 8 < 2 ^ 24"
    by (simp add: l)
  have c: "isControl (SynStream synStreamGet)" by simp
  have "lengthField (emitted (newFramer False []) ?f') = length (emitted (newFramer False []) ?f') - 8"
    using C4_length_field_equals_payload[OF w c e] by blast
  then have "lengthField (emitted (newFramer False []) ?f') = 32"
    by (simp add: l)
  then show ?thesis
    unfolding w snd_conv using l by simp
qed

text \<open>C4, counterexample: the Settings frame with \<open>2\<^sup>2\<^sup>1\<close> entries is written without
  error; \<open>2\<^sup>2\<^sup>4 + 4\<close> bytes follow its header, and the length field of the header says 4.\<close>

theorem C4_length_field_overflow:
  "fst (WriteFrame stored largeSettings (newFramer False [])) = None
   \<and> lengthField (emitted (newFramer False []) (snd (snd (WriteFrame stored largeSettings (newFramer False []))))) = 4
   \<and> length (emitted (newFramer False []) (snd (snd (WriteFrame stored largeSettings (newFramer False []))))) - 8 = 16777220"
proof -
  let ?es = "replicate 2097152 \<lparr>Flag = 0, Id = 0, Value = 0\<rparr>"
  let ?h = "\<lparr>version = 3, frameType = 4, Flags = 0, length' = 16777220\<rparr>"
  let ?fh = "(newFramer False [])\<lparr>Framer_w := \<lparr>written = [0x80, 0x03, 0x00, 0x04, 0x01, 0x00, 0x00, 0x04], room = None\<rparr>\<rparr>"
  let ?f1 = "(newFramer False [])\<lparr>Framer_w := \<lparr>written = [0x80, 0x03, 0x00, 0x04, 0x01, 0x00, 0x00, 0x04, 0x00, 0x20, 0x00, 0x00], room = None\<rparr>\<rparr>"
  have h: "writeControlFrameHeader ?h (newFramer False []) = (None, ?fh)"
    by (simp add: andThen_def writeControlFrameHeader_def fwrite_def Write_def PutUint16_def PutUint32_def newFramer_def)
  have c: "fwrite (PutUint32 2097152) ?fh = (None, ?f1)"
    by (simp add: fwrite_def Write_def PutUint32_def newFramer_def)
  have r: "room (Framer_w ?f1) = None" by simp
  from writeFlagIdValues_unlimited[OF r, of ?es] obtain bs where
    bs: "writeFlagIdValues ?es ?f1 = (None, ?f1\<lparr>Framer_w := (Framer_w ?f1)\<lparr>written := written (Framer_w ?f1) @ bs\<rparr>\<rparr>)"
      "length bs = 8 * length ?es" by blast
  have "WriteFrame stored largeSettings (newFramer False [])
     = (None, Settings \<lparr>Settings_CFHeader = ?h, FlagIdValues = ?es\<rparr>,
        ?f1\<lparr>Framer_w := (Framer_w ?f1)\<lparr>written := written (Framer_w ?f1) @ bs\<rparr>\<rparr>)"
    by (simp add: largeSettings_def zeroHeader_def SettingsFrame_write_def rewrap_def lift_io_def andThen_def
        Version_def TypeSettings_def h c bs(1))
  then show ?thesis
    using bs(2) by (simp add: emitted_def lengthField_def Uint32_def newFramer_def)
qed

section \<open>Ping\<close>

text \<open>C6: \<open>WriteFrame\<close> on a Ping with id 1 appends exactly the 12 bytes
  80 03 00 06 00 00 00 04 00 00 00 01 to a sink that accepts them, leaving the frame with
  version 3, type 6, flags 0 and length 4; \<open>ReadFrame\<close> on those 12 bytes returns that frame.\<close>

theorem C6_ping_round_trip:
  "WriteFrame z (Ping \<lparr>Ping_CFHeader = h, Ping_Id = 1\<rparr>) (f\<lparr>Framer_w := \<lparr>written = out, room = None\<rparr>\<rparr>)
     = (None, Ping \<lparr>Ping_CFHeader = \<lparr>version = 3, frameType = 6, Flags = 0, length' = 4\<rparr>, Ping_Id = 1\<rparr>,
        f\<lparr>Framer_w := \<lparr>written = out @ [0x80, 0x03, 0x00, 0x06, 0x00, 0x00, 0x00, 0x04, 0x00, 0x00, 0x00, 0x01],
                        room = None\<rparr>\<rparr>)
   \<and> ReadFrame z (g\<lparr>Framer_r := [0x80, 0x03, 0x00, 0x06, 0x00, 0x00, 0x00, 0x04, 0x00, 0x00, 0x00, 0x01]\<rparr>)
     = (Inr (Ping \<lparr>Ping_CFHeader = \<lparr>version = 3, frameType = 6, Flags = 0, length' = 4\<rparr>, Ping_Id = 1\<rparr>),
        g\<lparr>Framer_r := []\<rparr>)"
  by (simp add: PingFrame_write_def rewrap_def lift_io_def andThen_def writeControlFrameHeader_def
      fwrite_def Write_def PutUint16_def PutUint32_def Version_def
      ReadFrame_def parseControlFrame_def cframeRead_def wrapF_def fread_def ReadFull_def Uint32_def
      PingFrame_read_def TypeSynStream_def TypeSynReply_def TypeRstStream_def TypeSettings_def
      TypePing_def)

section \<open>Data frames\<close>

text \<open>C1: the code at a Data frame of \<open>2\<^sup>2\<^sup>4\<close> bytes, more than \<open>MaxDataLength\<close>.
  \<open>WriteFrame\<close> returns no error and writes the frame; the length spills into the flags
  byte, so the header on the wire says flags 1 and length 0.\<close>

theorem C1_oversized_data_frame_is_written:
  "MaxDataLength < length (Data largeData)
   \<and> WriteFrame z (DataF largeData) (f\<lparr>Framer_w := \<lparr>written = [], room = None\<rparr>\<rparr>)
     = (None, DataF largeData,
        f\<lparr>Framer_w := \<lparr>written = [0x00, 0x00, 0x00, 0x01, 0x01, 0x00, 0x00, 0x00] @ replicate 16777216 0,
                        room = None\<rparr>\<rparr>)"
  by (simp add: largeData_def MaxDataLength_def writeDataFrame_def rewrap_def lift_io_def andThen_def
      fwrite_def Write_def PutUint32_def)

section \<open>Stream id zero\<close>

text \<open>C3: the code at a WindowUpdate frame with stream id 0. \<open>WriteFrame\<close> returns no error
  and writes its 16 bytes, and \<open>ReadFrame\<close> on those bytes returns the frame, with no
  ZeroStreamId error on either side.\<close>

theorem C3_window_update_stream_zero:
  "WriteFrame z (WindowUpdate \<lparr>WindowUpdate_CFHeader = h, WindowUpdate_StreamId = 0, DeltaWindowSize = 1\<rparr>)
      (f\<lparr>Framer_w := \<lparr>written = [], room = None\<rparr>\<rparr>)
     = (None, WindowUpdate \<lparr>WindowUpdate_CFHeader = \<lparr>version = 3, frameType = 9, Flags = 0, length' = 8\<rparr>,
                            WindowUpdate_StreamId = 0, DeltaWindowSize = 1\<rparr>,
        f\<lparr>Framer_w := \<lparr>written = [0x80, 0x03, 0x00, 0x09, 0x00, 0x00, 0x00, 0x08,
                                    0x00, 0x00, 0x00, 0x00, 0x00, 0x00, 0x00, 0x01], room = None\<rparr>\<rparr>)
   \<and> ReadFrame z (g\<lparr>Framer_r := [0x80, 0x03, 0x00, 0x09, 0x00, 0x00, 0x00, 0x08,
                                0x00, 0x00, 0x00, 0x00, 0x00, 0x00, 0x00, 0x01]\<rparr>)
     = (Inr (WindowUpdate \<lparr>WindowUpdate_CFHeader = \<lparr>version = 3, frameType = 9, Flags = 0, length' = 8\<rparr>,
                            WindowUpdate_StreamId = 0, DeltaWindowSize = 1\<rparr>),
        g\<lparr>Framer_r := []\<rparr>)"
  by (simp add: WindowUpdateFrame_write_def rewrap_def lift_io_def andThen_def writeControlFrameHeader_def
      fwrite_def Write_def PutUint16_def PutUint32_def Version_def
      ReadFrame_def parseControlFrame_def cframeRead_def wrapF_def fread_def ReadFull_def Uint32_def
      WindowUpdateFrame_read_def TypeSynStream_def TypeSynReply_def TypeRstStream_def TypeSettings_def
      TypePing_def TypeGoAway_def TypeHeaders_def TypeWindowUpdate_def)

section \<open>Errors and partial output\<close>

lemma lift_io_Error [simp]: "lift_io m \<noteq> (Some (Error c sid), s)"
  by (cases m) (auto simp: lift_io_def)

lemma lift_io_Error_fst: "lift_io m = (Some e, s) \<Longrightarrow> \<exists>io. e = IOError io"
  by (cases m) (auto simp: lift_io_def)

text \<open>The checks of the stream id and of the data frame run before any output: when
  \<open>WriteFrame\<close> returns ZeroStreamId or InvalidDataFrame, the sink, the rest of the Framer and
  the frame are as they were.\<close>

lemma validation_errors_write_nothing:
  assumes "WriteFrame z frame f = (Some (Error c sid), frame', f')"
    and "c = ZeroStreamId \<or> c = InvalidDataFrame"
  shows "f' = f \<and> frame' = frame"
proof (cases frame)
  case (SynStream x) with assms show ?thesis
    by (auto simp: rewrap_def writeSynStreamFrame_def Let_def split: prod.splits if_splits option.splits dest: lift_io_Error_fst)
next
  case (SynReply x) with assms show ?thesis
    by (auto simp: rewrap_def writeSynReplyFrame_def Let_def split: prod.splits if_splits option.splits dest: lift_io_Error_fst)
next
  case (RstStream x) with assms show ?thesis
    by (auto simp: rewrap_def RstStreamFrame_write_def Let_def split: prod.splits if_splits option.splits)
next
  case (Settings x) with assms show ?thesis
    by (auto simp: rewrap_def SettingsFrame_write_def Let_def split: prod.splits if_splits option.splits)
next
  case (Ping x) with assms show ?thesis
    by (auto simp: rewrap_def PingFrame_write_def Let_def split: prod.splits if_splits option.splits)
next
  case (GoAway x) with assms show ?thesis
    by (auto simp: rewrap_def GoAwayFrame_write_def Let_def split: prod.splits if_splits option.splits)
next
  case (Headers x) with assms show ?thesis
    by (auto simp: rewrap_def writeHeadersFrame_def Let_def split: prod.splits if_splits option.splits dest: lift_io_Error_fst)
next
  case (WindowUpdate x) with assms show ?thesis
    by (auto simp: rewrap_def WindowUpdateFrame_write_def Let_def split: prod.splits if_splits option.splits)
next
  case (DataF x) with assms show ?thesis
    by (auto simp: rewrap_def writeDataFrame_def Let_def split: prod.splits if_splits option.splits)
qed


text \<open>C2: the code at a RstStream frame with stream id 1 and status 0. \<open>WriteFrame\<close>
  returns InvalidControlFrame only after the header and the stream id, 12 bytes, have gone
  to the sink, so an error is returned with a partial frame written. The check of the stream
  id in the same method runs before any output: with stream id 0 the error is ZeroStreamId
  and the sink is unchanged.\<close>

theorem C2_rst_stream_status_checked_after_output:
  "WriteFrame z (RstStream \<lparr>RstStream_CFHeader = h, RstStream_StreamId = 1, Status = 0\<rparr>)
       (f\<lparr>Framer_w := \<lparr>written = [], room = None\<rparr>\<rparr>)
     = (Some (Error InvalidControlFrame 1),
        RstStream \<lparr>RstStream_CFHeader = \<lparr>version = 3, frameType = 3, Flags = 0, length' = 8\<rparr>,
                   RstStream_StreamId = 1, Status = 0\<rparr>,
        f\<lparr>Framer_w := \<lparr>written = [0x80, 0x03, 0x00, 0x03, 0x00, 0x00, 0x00, 0x08,
                                    0x00, 0x00, 0x00, 0x01], room = None\<rparr>\<rparr>)
   \<and> WriteFrame z (RstStream \<lparr>RstStream_CFHeader = h, RstStream_StreamId = 0, Status = 0\<rparr>)
       (f\<lparr>Framer_w := \<lparr>written = [], room = None\<rparr>\<rparr>)
     = (Some (Error ZeroStreamId 0),
        RstStream \<lparr>RstStream_CFHeader = h, RstStream_StreamId = 0, Status = 0\<rparr>,
        f\<lparr>Framer_w := \<lparr>written = [], room = None\<rparr>\<rparr>)"
  by (simp add: RstStreamFrame_write_def rewrap_def andThen_def
      writeControlFrameHeader_def fwrite_def Write_def PutUint16_def PutUint32_def Version_def
      TypeRstStream_def)

section \<open>Error codes of the reader\<close>

lemma parseHeaderEntries_codes:
  assumes "c \<noteq> UnlowercasedHeaderName" "c \<noteq> DuplicateHeaders"
  shows "e \<noteq> Some (Error c x) \<Longrightarrow> snd (fst (parseHeaderEntries rd sid n h e s)) \<noteq> Some (Error c x)"
proof (induction n arbitrary: h e s)
  case 0
  then show ?case by simp
next
  case (Suc n)
  show ?case
    using Suc.prems assms
    by (auto simp: Let_def split: prod.splits sum.splits if_splits intro!: Suc.IH)
qed

lemma parseHeaderValueBlock_codes:
  assumes "c \<noteq> UnlowercasedHeaderName" "c \<noteq> DuplicateHeaders"
  shows "snd (fst (parseHeaderValueBlock rd sid s)) \<noteq> Some (Error c x)"
  using parseHeaderEntries_codes[OF assms, of None x rd sid]
  by (auto simp: parseHeaderValueBlock_def split: prod.splits sum.splits)

lemma decodeHeaders_codes:
  assumes "c \<noteq> UnlowercasedHeaderName" "c \<noteq> DuplicateHeaders" "c \<noteq> WrongCompressedPayloadSize"
  shows "snd (fst (decodeHeaders z sid f)) \<noteq> Some (Error c x)"
  using parseHeaderValueBlock_codes[OF assms(1,2), of "if \<not> headerCompressionDisabled f then zread z else fread" sid f x] assms(3)
  by (auto simp: decodeHeaders_def Let_def split: prod.splits)

lemma decodeHeaders_codesD:
  assumes "decodeHeaders z sid f = ((hs, Some (Error c x)), f')"
  shows "c = UnlowercasedHeaderName \<or> c = DuplicateHeaders \<or> c = WrongCompressedPayloadSize"
  using decodeHeaders_codes[of c z sid f x] assms by auto

lemma readSynStreamFrame_codes:
  assumes "readSynStreamFrame z h f = (Inl (Error c x), f')"
  shows "c \<in> {UnlowercasedHeaderName, DuplicateHeaders, WrongCompressedPayloadSize, InvalidHeaderPresent, ZeroStreamId}"
  using assms
  by (auto simp: readSynStreamFrame_def finishSynStreamFrame_def Let_def
      split: prod.splits sum.splits option.splits if_splits dest: decodeHeaders_codesD)

lemma readSynReplyFrame_codes:
  assumes "readSynReplyFrame z h f = (Inl (Error c x), f')"
  shows "c \<in> {UnlowercasedHeaderName, DuplicateHeaders, WrongCompressedPayloadSize, InvalidHeaderPresent, ZeroStreamId}"
  using assms
  by (auto simp: readSynReplyFrame_def Let_def
      split: prod.splits sum.splits option.splits if_splits dest: decodeHeaders_codesD)

lemma readHeadersFrame_codes:
  assumes "readHeadersFrame z h f = (Inl (Error c x), f')"
  shows "c \<in> {UnlowercasedHeaderName, DuplicateHeaders, WrongCompressedPayloadSize, InvalidHeaderPresent, ZeroStreamId}"
  using assms
  by (auto simp: readHeadersFrame_def Let_def
      split: prod.splits sum.splits option.splits if_splits dest: decodeHeaders_codesD)

lemma wrapF_Inl: "wrapF C m = (Inl e, s) \<longleftrightarrow> m = (Inl e, s)"
  by (cases m; cases "fst m") (auto simp: wrapF_def)

lemma cframeRead_codes:
  assumes "cframeRead z ftype = Some rd" "rd h f = (Inl (Error c x), f')"
  shows "c \<noteq> UnknownFrameType"
  using assms
  by (auto simp: cframeRead_def wrapF_Inl RstStreamFrame_read_def SettingsFrame_read_def PingFrame_read_def
        GoAwayFrame_read_def WindowUpdateFrame_read_def Let_def
      split: if_splits prod.splits sum.splits
      dest: readSynStreamFrame_codes readSynReplyFrame_codes readHeadersFrame_codes)

lemma ReadFrame_never_unknown: "fst (ReadFrame z g) \<noteq> Inl (Error UnknownFrameType sid)"
proof
  assume a: "fst (ReadFrame z g) = Inl (Error UnknownFrameType sid)"
  then obtain g' where "ReadFrame z g = (Inl (Error UnknownFrameType sid), g')"
    by (cases "ReadFrame z g") auto
  then show False
    by (auto simp: ReadFrame_def parseControlFrame_def parseDataFrame_def wrapF_Inl Let_def
        split: prod.splits sum.splits if_splits option.splits dest: cframeRead_codes)
qed


lemma fread_append:
  "Framer_r g = p @ rest \<Longrightarrow> length p = n \<Longrightarrow> fread n g = (Inr p, g\<lparr>Framer_r := rest\<rparr>)"
  by (auto simp: fread_def ReadFull_def)

lemmas known_types = TypeSynStream_def TypeSynReply_def TypeRstStream_def TypeSettings_def
  TypePing_def TypeGoAway_def TypeHeaders_def TypeWindowUpdate_def

text \<open>C7 (as amended): for every control frame whose type is not one of the eight known
  codes, \<open>ReadFrame\<close> consumes the 8-byte header and returns the InvalidControlFrame error with
  stream id 0; and \<open>ReadFrame\<close> never returns the UnknownFrameType error, on any input.\<close>

theorem C7_unknown_type_is_invalid_control_frame:
  assumes "Framer_r f = PutUint32 firstWord @ PutUint32 flagsAndLength @ rest"
    and "firstWord AND 0x80000000 \<noteq> 0"
    and "ucast (firstWord AND 0xffff) \<notin> {TypeSynStream, TypeSynReply, TypeRstStream, TypeSettings,
           TypePing, TypeGoAway, TypeHeaders, TypeWindowUpdate}"
  shows "ReadFrame z f = (Inl (Error InvalidControlFrame 0), f\<lparr>Framer_r := rest\<rparr>)
       \<and> (\<forall>g sid. fst (ReadFrame z g) \<noteq> Inl (Error UnknownFrameType sid))"
proof -
  have 1: "fread 4 f = (Inr (PutUint32 firstWord), f\<lparr>Framer_r := PutUint32 flagsAndLength @ rest\<rparr>)"
    using assms(1) by (intro fread_append) simp_all
  have 2: "fread 4 (f\<lparr>Framer_r := PutUint32 flagsAndLength @ rest\<rparr>) = (Inr (PutUint32 flagsAndLength), f\<lparr>Framer_r := rest\<rparr>)"
    using fread_append[of "f\<lparr>Framer_r := PutUint32 flagsAndLength @ rest\<rparr>" "PutUint32 flagsAndLength" rest 4] by simp
  have 3: "cframeRead z (ucast (firstWord AND 0xffff)) = None"
    using assms(3) by (simp add: cframeRead_def)
  have "ReadFrame z f = (Inl (Error InvalidControlFrame 0), f\<lparr>Framer_r := rest\<rparr>)"
    using assms(2) by (simp add: ReadFrame_def parseControlFrame_def 1 2 3 Let_def)
  then show ?thesis using ReadFrame_never_unknown by blast
qed

text \<open>C7, witness: a control frame of type 5 (version 3, no flags, length 0).\<close>

theorem C7_witness:
  "ReadFrame stored (newFramer False [0x80, 0x03, 0x00, 0x05, 0x00, 0x00, 0x00, 0x00])
     = (Inl (Error InvalidControlFrame 0), newFramer False [])"
proof -
  have a: "Framer_r (newFramer False [0x80, 0x03, 0x00, 0x05, 0x00, 0x00, 0x00, 0x00])
             = PutUint32 0x80030005 @ PutUint32 0 @ []"
    by (simp add: newFramer_def PutUint32_def)
  have b: "(0x80030005 :: uint32) AND 0x80000000 \<noteq> 0" by simp
  have c: "ucast ((0x80030005 :: uint32) AND 0xffff) \<notin> {TypeSynStream, TypeSynReply, TypeRstStream, TypeSettings,
           TypePing, TypeGoAway, TypeHeaders, TypeWindowUpdate}"
    by (simp add: known_types)
  show ?thesis
    using C7_unknown_type_is_invalid_control_frame[OF a b c, of stored] by (simp add: newFramer_def)
qed

text \<open>C7, counterexample: for that frame of type 5 the error is InvalidControlFrame, not
  UnknownFrameType.\<close>

theorem C7_unknown_type_counterexample:
  "fst (ReadFrame stored (newFramer False [0x80, 0x03, 0x00, 0x05, 0x00, 0x00, 0x00, 0x00]))
     = Inl (Error InvalidControlFrame 0)
   \<and> fst (ReadFrame stored (newFramer False [0x80, 0x03, 0x00, 0x05, 0x00, 0x00, 0x00, 0x00]))
     \<noteq> Inl (Error UnknownFrameType 0)"
  by (simp add: ReadFrame_def parseControlFrame_def cframeRead_def fread_def ReadFull_def Uint32_def
      newFramer_def known_types)


section \<open>The payload bound of a short SynStream\<close>

lemma short_length_bound:
  assumes "l < (10 :: uint32)"
  shows "uint (l - 10) = uint l + 4294967286"
    and "uint (l - 10) = (uint l - 10) mod 2 ^ 32"
proof -
  have u: "uint l < 10" using assms by (simp add: word_less_def)
  have n: "0 \<le> uint l" by simp
  show 2: "uint (l - 10) = (uint l - 10) mod 2 ^ 32"
    by (simp add: uint_word_ariths)
  have "(uint l - 10) mod 4294967296 = (uint l - 10 + 4294967296) mod 4294967296"
    by (simp only: mod_add_self2)
  also have "\<dots> = uint l + 4294967286"
    using u n by (simp add: mod_pos_pos_trivial)
  finally show "uint (l - 10) = uint l + 4294967286" using 2 by simp
qed

lemma finishSynStreamFrame_codes:
  assumes "finishSynStreamFrame z frame f = (Inl (Error c x), f')"
  shows "c \<noteq> InvalidControlFrame"
  using assms
  by (auto simp: finishSynStreamFrame_def Let_def
      split: prod.splits sum.splits option.splits if_splits dest: decodeHeaders_codesD)

text \<open>C10: when a SynStream header carries a length below 10 and header compression is
  enabled, the reader reports no InvalidControlFrame error. The bound it computes,
  \<^verbatim>\<open>int64(h.length - 10)\<close>, is \<open>(length - 10) mod 2\<^sup>3\<^sup>2\<close>, that is \<open>length + 4294967286\<close>;
  \<^verbatim>\<open>uncorkHeaderDecompressor\<close> stores it in \<^verbatim>\<open>headerReader.N\<close> and the rest of the reader runs from
  that state (with no decompressor yet, \<^verbatim>\<open>zlib.NewReaderDict\<close> is given the bounded reader
  with that count first).\<close>

theorem C10_short_syn_stream_length_wraps:
  assumes "length' h < 10" and "\<not> headerCompressionDisabled f"
    and "readSynStreamFields h f = (Inr frame, f1)"
  shows "uint (length' h - 10) = (uint (length' h) - 10) mod 2 ^ 32
       \<and> uint (length' h - 10) = uint (length' h) + 4294967286
       \<and> (headerDecompressor f1 \<noteq> None \<longrightarrow>
            readSynStreamFrame z h f =
              finishSynStreamFrame z frame (f1\<lparr>headerReader_N := uint (length' h) + 4294967286\<rparr>))
       \<and> (headerDecompressor f1 = None \<longrightarrow>
            readSynStreamFrame z h f =
              (case NewReaderDict z (Framer_r f1, uint (length' h) + 4294967286) of
                 Inl err \<Rightarrow> (Inl (IOError err), f1\<lparr>headerReader_N := uint (length' h) + 4294967286\<rparr>)
               | Inr (d, src, N) \<Rightarrow>
                   finishSynStreamFrame z frame
                     (f1\<lparr>Framer_r := src, headerReader_N := N, headerDecompressor := Some d\<rparr>)))
       \<and> (\<forall>x. fst (readSynStreamFrame z h f) \<noteq> Inl (Error InvalidControlFrame x))"
proof -
  have d: "\<not> headerCompressionDisabled f1"
    using assms(2,3)
    by (auto simp: readSynStreamFields_def fread_def Let_def split: prod.splits sum.splits)
  note b = short_length_bound[OF assms(1)]
  have noicf: "fst (readSynStreamFrame z h f) \<noteq> Inl (Error InvalidControlFrame x)" for x
  proof
    assume "fst (readSynStreamFrame z h f) = Inl (Error InvalidControlFrame x)"
    then obtain f' where "readSynStreamFrame z h f = (Inl (Error InvalidControlFrame x), f')"
      by (cases "readSynStreamFrame z h f") auto
    from readSynStreamFrame_codes[OF this] show False by simp
  qed
  have r: "readSynStreamFrame z h f =
      (case uncorkHeaderDecompressor z (uint (length' h) + 4294967286) f1 of
         (Some err, f) \<Rightarrow> (Inl (IOError err), f)
       | (None, f) \<Rightarrow> finishSynStreamFrame z frame f)"
    using d by (simp add: readSynStreamFrame_def assms(3) uncork_def b(1))
  have 3: "headerDecompressor f1 \<noteq> None \<Longrightarrow>
            readSynStreamFrame z h f =
              finishSynStreamFrame z frame (f1\<lparr>headerReader_N := uint (length' h) + 4294967286\<rparr>)"
    unfolding r by (simp add: uncorkHeaderDecompressor_def)
  have 4: "headerDecompressor f1 = None \<Longrightarrow>
            readSynStreamFrame z h f =
              (case NewReaderDict z (Framer_r f1, uint (length' h) + 4294967286) of
                 Inl err \<Rightarrow> (Inl (IOError err), f1\<lparr>headerReader_N := uint (length' h) + 4294967286\<rparr>)
               | Inr (d, src, N) \<Rightarrow>
                   finishSynStreamFrame z frame
                     (f1\<lparr>Framer_r := src, headerReader_N := N, headerDecompressor := Some d\<rparr>))"
    unfolding r by (simp add: uncorkHeaderDecompressor_def Let_def split: sum.splits)
  show ?thesis
    using b(2) b(1) 3 4 noicf by blast
qed

text \<open>C10, witness: length 9 gives the bound 4294967295.\<close>

theorem C10_witness:
  "readSynStreamFrame stored \<lparr>version = 3, frameType = 1, Flags = 0, length' = 9\<rparr>
      ((newFramer False [0, 0, 0, 1, 0, 0, 0, 0, 0x60, 0, 0, 0, 0, 0])\<lparr>headerDecompressor := Some ()\<rparr>)
   = finishSynStreamFrame stored
      \<lparr>SynStream_CFHeader = \<lparr>version = 3, frameType = 1, Flags = 0, length' = 9\<rparr>, SynStream_StreamId = 1,
        AssociatedToStreamId = 0, Priority = 3, Slot = 0, SynStream_Headers = []\<rparr>
      ((newFramer False [0, 0, 0, 0])\<lparr>headerDecompressor := Some (), headerReader_N := 4294967295\<rparr>)"
proof -
  let ?h = "\<lparr>version = 3, frameType = 1, Flags = 0, length' = 9\<rparr>"
  let ?f = "(newFramer False [0, 0, 0, 1, 0, 0, 0, 0, 0x60, 0, 0, 0, 0, 0])\<lparr>headerDecompressor := Some ()\<rparr>"
  have a: "length' ?h < 10" by simp
  have b: "\<not> headerCompressionDisabled ?f" by (simp add: newFramer_def)
  have c: "readSynStreamFields ?h ?f =
     (Inr \<lparr>SynStream_CFHeader = ?h, SynStream_StreamId = 1,
        AssociatedToStreamId = 0, Priority = 3, Slot = 0, SynStream_Headers = []\<rparr>,
      (newFramer False [0, 0, 0, 0])\<lparr>headerDecompressor := Some ()\<rparr>)"
    by (simp add: readSynStreamFields_def fread_def ReadFull_def Uint32_def newFramer_def)
  show ?thesis
    using C10_short_syn_stream_length_wraps[OF a b c, of stored] by (simp add: newFramer_def)
qed


section \<open>The priority of a SynStream\<close>

lemma drop_push_5:
  assumes "unat (p :: byte) \<le> 7"
  shows "drop_bit 5 (push_bit 5 p) = p"
proof (rule bit_word_eqI)
  fix n assume n: "n < LENGTH(8)"
  have "p < 2 ^ 3" using assms by (simp add: word_less_nat_alt)
  then have t: "take_bit 3 p = p" by (simp add: take_bit_eq_mask less_mask_eq)
  have hi: "m < 3" if "bit p m" for m
  proof -
    from that have "bit (take_bit 3 p) m" by (simp only: t)
    then show ?thesis by (simp add: bit_take_bit_iff)
  qed
  show "bit (drop_bit 5 (push_bit 5 p)) n = bit p n"
    using n hi[of n] by (auto simp: bit_simps)
qed

lemma unat_drop_bit_5: "unat (drop_bit 5 (b :: byte)) \<le> 7"
proof -
  have "unat b < 256" using unsigned_less[of b] by simp
  then have "unat b div 32 \<le> 7" by simp
  then show ?thesis by (simp add: unat_drop_bit_eq drop_bit_eq_div unat_div)
qed

lemma readSynStreamFields_bytes:
  assumes "Framer_r g = PutUint32 sid @ PutUint32 assoc @ [pb, sl] @ rest"
  shows "readSynStreamFields h g =
    (Inr \<lparr>SynStream_CFHeader = h, SynStream_StreamId = sid, AssociatedToStreamId = assoc,
          Priority = drop_bit 5 pb, Slot = sl, SynStream_Headers = []\<rparr>, g\<lparr>Framer_r := rest\<rparr>)"
proof -
  have 1: "fread 4 g = (Inr (PutUint32 sid), g\<lparr>Framer_r := PutUint32 assoc @ pb # sl # rest\<rparr>)"
    using assms by (intro fread_append) simp_all
  have 2: "fread 4 (g\<lparr>Framer_r := PutUint32 assoc @ pb # sl # rest\<rparr>)
         = (Inr (PutUint32 assoc), g\<lparr>Framer_r := pb # sl # rest\<rparr>)"
    using fread_append[of "g\<lparr>Framer_r := PutUint32 assoc @ pb # sl # rest\<rparr>" "PutUint32 assoc" "pb # sl # rest" 4]
    by simp
  have 3: "fread (Suc 0) (g\<lparr>Framer_r := pb # sl # rest\<rparr>) = (Inr [pb], g\<lparr>Framer_r := sl # rest\<rparr>)"
    by (simp add: fread_def ReadFull_def)
  have 4: "fread (Suc 0) (g\<lparr>Framer_r := sl # rest\<rparr>) = (Inr [sl], g\<lparr>Framer_r := rest\<rparr>)"
    by (simp add: fread_def ReadFull_def)
  show ?thesis
    by (simp add: readSynStreamFields_def 1 2 3 4)
qed

lemma readSynStreamFields_priority:
  "readSynStreamFields h g = (Inr fr0, g1) \<Longrightarrow> unat (Priority fr0) \<le> 7"
  by (auto simp: readSynStreamFields_def Let_def unat_drop_bit_5 split: prod.splits sum.splits)

lemma readSynStreamFrame_InrD:
  assumes "readSynStreamFrame z h g = (Inr fr, g')"
  obtains fr0 g1 hs where "readSynStreamFields h g = (Inr fr0, g1)" "fr = fr0\<lparr>SynStream_Headers := hs\<rparr>"
  using assms
  by (auto simp: readSynStreamFrame_def finishSynStreamFrame_def Let_def
      split: prod.splits sum.splits option.splits if_splits)

lemma wrapF_Inr: "wrapF C m = (Inr y, s) \<longleftrightarrow> (\<exists>x. m = (Inr x, s) \<and> y = C x)"
  by (cases m; cases "fst m") (auto simp: wrapF_def)

lemma cframeRead_SynStream:
  assumes "cframeRead z ftype = Some rd" "rd h f = (Inr (SynStream fr), f')"
  shows "readSynStreamFrame z h f = (Inr fr, f')"
  using assms
  by (auto simp: cframeRead_def wrapF_Inr split: if_splits)

lemma ReadFrame_SynStreamD:
  assumes "ReadFrame z g = (Inr (SynStream fr), g')"
  obtains h g0 where "readSynStreamFrame z h g0 = (Inr fr, g')"
  using assms
  by (auto simp: ReadFrame_def parseControlFrame_def wrapF_Inr Let_def
      split: prod.splits sum.splits if_splits option.splits dest: cframeRead_SynStream)

lemma ReadFrame_priority:
  assumes "ReadFrame z g = (Inr (SynStream fr), g')"
  shows "unat (Priority fr) \<le> 7"
proof -
  from assms obtain h g0 where "readSynStreamFrame z h g0 = (Inr fr, g')"
    by (rule ReadFrame_SynStreamD)
  then obtain fr0 g1 hs where "readSynStreamFields h g0 = (Inr fr0, g1)" "fr = fr0\<lparr>SynStream_Headers := hs\<rparr>"
    by (rule readSynStreamFrame_InrD)
  then show ?thesis using readSynStreamFields_priority by fastforce
qed

lemma ReadFrame_SynStream_bytes:
  assumes "Framer_r g = controlHeaderBytes h @ payload"
    and "version h = Version" and "frameType h = TypeSynStream"
  shows "\<exists>hdr. ReadFrame z g = wrapF SynStream (readSynStreamFrame z hdr (g\<lparr>Framer_r := payload\<rparr>))"
proof -
  let ?w2 = "push_bit 24 (ucast (Flags h) :: uint32) OR length' h"
  have c: "controlHeaderBytes h = [0x80, 0x03, 0x00, 0x01] @ PutUint32 ?w2"
    by (simp add: controlHeaderBytes_def assms(2,3) Version_def TypeSynStream_def PutUint16_def)
  have 1: "fread 4 g = (Inr [0x80, 0x03, 0x00, 0x01], g\<lparr>Framer_r := PutUint32 ?w2 @ payload\<rparr>)"
    using assms(1) unfolding c by (intro fread_append) simp_all
  have 2: "fread 4 (g\<lparr>Framer_r := PutUint32 ?w2 @ payload\<rparr>) = (Inr (PutUint32 ?w2), g\<lparr>Framer_r := payload\<rparr>)"
    using fread_append[of "g\<lparr>Framer_r := PutUint32 ?w2 @ payload\<rparr>" "PutUint32 ?w2" payload 4] by simp
  have "ReadFrame z g = wrapF SynStream (readSynStreamFrame z
          \<lparr>version = 3, frameType = 1, Flags = ucast (drop_bit 24 (?w2 AND 0xff000000)),
           length' = ?w2 AND 0xffffff\<rparr> (g\<lparr>Framer_r := payload\<rparr>))"
    by (simp add: ReadFrame_def parseControlFrame_def 1 2 Let_def Uint32_def[of "[0x80, 0x03, 0x00, 0x01]"]
        cframeRead_def TypeSynStream_def)
  then show ?thesis by blast
qed

lemma write_synStreamGet:
  "WriteFrame stored (SynStream synStreamGet) (newFramer False [])
      = (None, SynStream (synStreamGet\<lparr>SynStream_CFHeader := \<lparr>version = 3, frameType = 1, Flags = 0, length' = 32\<rparr>\<rparr>),
         (newFramer False [])\<lparr>Framer_w := \<lparr>written =
      [0x80, 0x03, 0x00, 0x01, 0x00, 0x00, 0x00, 0x20, 0x00, 0x00, 0x00, 0x01, 0x00, 0x00, 0x00, 0x00,
       0x60, 0x00, 0x00, 0x00, 0x00, 0x01, 0x00, 0x00, 0x00, 0x07, 0x3a, 0x6d, 0x65, 0x74, 0x68, 0x6f,
       0x64, 0x00, 0x00, 0x00, 0x03, 0x47, 0x45, 0x54], room = None\<rparr>\<rparr>)"
  by (simp add: synStreamGet_def zeroHeader_def writeSynStreamFrame_def marshalHeaders_def
      writeHeaderValueBlock_def headerCompressor_Write_def headerCompressor_Flush_def stored_def
      headerValueSeparator_def ToLower_def toLowerChar_def bytes_of_def
      rewrap_def lift_io_def andThen_def writeControlFrameHeader_def fwrite_def Write_def
      PutUint16_def PutUint32_def Version_def TypeSynStream_def newFramer_def)

lemma read_synStreamGet:
  "ReadFrame stored (newFramer False
      [0x80, 0x03, 0x00, 0x01, 0x00, 0x00, 0x00, 0x20, 0x00, 0x00, 0x00, 0x01, 0x00, 0x00, 0x00, 0x00,
       0x60, 0x00, 0x00, 0x00, 0x00, 0x01, 0x00, 0x00, 0x00, 0x07, 0x3a, 0x6d, 0x65, 0x74, 0x68, 0x6f,
       0x64, 0x00, 0x00, 0x00, 0x03, 0x47, 0x45, 0x54])
   = (Inr (SynStream \<lparr>SynStream_CFHeader = \<lparr>version = 3, frameType = 1, Flags = 0, length' = 32\<rparr>,
        SynStream_StreamId = 1, AssociatedToStreamId = 0, Priority = 3, Slot = 0,
        SynStream_Headers = [('':method'', [''GET''])]\<rparr>),
      (newFramer False [])\<lparr>headerDecompressor := Some ()\<rparr>)"
  by code_simp

text \<open>C9: when a SynStream frame with priority at most 7 has been written without error
  and \<open>ReadFrame\<close> returns a frame from the bytes written, that frame is a SynStream with the
  same priority (the byte on the wire is \<open>priority << 5\<close>, the reader shifts it right by
  5); and every SynStream that \<open>ReadFrame\<close> returns has a priority of at most 7.\<close>

theorem C9_priority_round_trip:
  assumes "WriteFrame z (SynStream frame) f = (None, frame', f')"
    and "unat (Priority frame) \<le> 7"
    and "Framer_r g = emitted f f' @ rest"
    and "ReadFrame z' g = (Inr frame2, g')"
  shows "(\<exists>x. frame2 = SynStream x \<and> Priority x = Priority frame)
       \<and> (\<forall>gg x gg'. ReadFrame z' gg = (Inr (SynStream x), gg') \<longrightarrow> unat (Priority x) \<le> 7)"
proof -
  from assms(1) obtain fr' where w: "writeSynStreamFrame z frame f = (None, fr', f')"
    by (auto simp: rewrap_def split: prod.splits)
  from w obtain hb where
    e: "written (Framer_w f') = written (Framer_w f) @ controlHeaderBytes (SynStream_CFHeader fr')
       @ PutUint32 (SynStream_StreamId frame) @ PutUint32 (AssociatedToStreamId frame)
       @ [push_bit 5 (Priority frame), Slot frame] @ hb" and
    fr: "fr' = frame\<lparr>SynStream_CFHeader := (SynStream_CFHeader frame)
       \<lparr>version := Version, frameType := TypeSynStream, length' := of_nat (length hb + 10)\<rparr>\<rparr>"
    by (rule writeSynStreamFrame_NoneD)
  let ?payload = "PutUint32 (SynStream_StreamId frame) @ PutUint32 (AssociatedToStreamId frame)
       @ [push_bit 5 (Priority frame), Slot frame] @ (hb @ rest)"
  have src: "Framer_r g = controlHeaderBytes (SynStream_CFHeader fr') @ ?payload"
    using assms(3) e by (simp add: emitted_def)
  have "version (SynStream_CFHeader fr') = Version" "frameType (SynStream_CFHeader fr') = TypeSynStream"
    by (simp_all add: fr)
  from ReadFrame_SynStream_bytes[OF src this, of z'] obtain hdr where
    r: "ReadFrame z' g = wrapF SynStream (readSynStreamFrame z' hdr (g\<lparr>Framer_r := ?payload\<rparr>))"
    by blast
  from assms(4) obtain x where
    x: "readSynStreamFrame z' hdr (g\<lparr>Framer_r := ?payload\<rparr>) = (Inr x, g')" "frame2 = SynStream x"
    unfolding r wrapF_Inr by blast
  from x(1) obtain fr0 g1 hs where
    f0: "readSynStreamFields hdr (g\<lparr>Framer_r := ?payload\<rparr>) = (Inr fr0, g1)" "x = fr0\<lparr>SynStream_Headers := hs\<rparr>"
    by (rule readSynStreamFrame_InrD)
  have "Framer_r (g\<lparr>Framer_r := ?payload\<rparr>) = ?payload" by simp
  from readSynStreamFields_bytes[OF this, of hdr] f0(1)
  have "Priority fr0 = drop_bit 5 (push_bit 5 (Priority frame))" by auto
  then have "Priority x = Priority frame"
    using f0(2) drop_push_5[OF assms(2)] by simp
  then show ?thesis using x(2) ReadFrame_priority by blast
qed


text \<open>C9, witness: the SynStream with priority 3 and the header \<open>:method: GET\<close>, written and
  read back through the pass-through codec.\<close>

theorem C9_priority_witness:
  "\<exists>x. fst (ReadFrame stored (newFramer False (emitted (newFramer False [])
           (snd (snd (WriteFrame stored (SynStream synStreamGet) (newFramer False []))))))) = Inr (SynStream x)
       \<and> Priority x = 3"
proof -
  let ?bytes = "[0x80, 0x03, 0x00, 0x01, 0x00, 0x00, 0x00, 0x20, 0x00, 0x00, 0x00, 0x01, 0x00, 0x00, 0x00, 0x00,
       0x60, 0x00, 0x00, 0x00, 0x00, 0x01, 0x00, 0x00, 0x00, 0x07, 0x3a, 0x6d, 0x65, 0x74, 0x68, 0x6f,
       0x64, 0x00, 0x00, 0x00, 0x03, 0x47, 0x45, 0x54] :: byte list"
  let ?f' = "(newFramer False [])\<lparr>Framer_w := \<lparr>written = ?bytes, room = None\<rparr>\<rparr>"
  have e: "emitted (newFramer False []) ?f' = ?bytes"
    by (simp add: emitted_def newFramer_def)
  have p: "unat (Priority synStreamGet) \<le> 7" by (simp add: synStreamGet_def)
  have src: "Framer_r (newFramer False ?bytes) = emitted (newFramer False []) ?f' @ []"
    unfolding e by (simp add: newFramer_def)
  from C9_priority_round_trip[OF write_synStreamGet p src read_synStreamGet]
  obtain x where x: "SynStream \<lparr>SynStream_CFHeader = \<lparr>version = 3, frameType = 1, Flags = 0, length' = 32\<rparr>,
        SynStream_StreamId = 1, AssociatedToStreamId = 0, Priority = 3, Slot = 0,
        SynStream_Headers = [('':method'', [''GET''])]\<rparr> = SynStream x" "Priority x = Priority synStreamGet"
    by blast
  have "Priority x = 3" using x(2) by (simp add: synStreamGet_def)
  then show ?thesis
    unfolding write_synStreamGet snd_conv e read_synStreamGet fst_conv using x(1) by blast
qed

section \<open>Round trip of a header block\<close>

lemma string_of_bytes_of [simp]: "string_of (bytes_of s) = s"
proof -
  have "char_of (unat (of_char c :: byte)) = c" for c
  proof -
    have "(of_char c :: byte) = of_nat (of_char c)" by (simp add: of_nat_of_char)
    moreover have "(of_char c :: nat) < 256" by (cases c) (simp add: of_char_def)
    ultimately have "unat (of_char c :: byte) = of_char c" by (simp add: unat_of_nat)
    then show ?thesis by simp
  qed
  then show ?thesis by (simp add: string_of_def bytes_of_def comp_def)
qed

lemma length_bytes_of [simp]: "length (bytes_of s) = length s"
  by (simp add: bytes_of_def)

lemma ReadFull_append: "length p = n \<Longrightarrow> ReadFull n (p @ rest) = (Inr p, rest)"
  by (auto simp: ReadFull_def)

lemma unat_Uint32_length: "n < 2 ^ 32 \<Longrightarrow> unat (Uint32 (PutUint32 (of_nat n))) = n"
  by (simp add: unat_of_nat)

lemma ToLower_lowercaseASCII: "lowercaseASCII name \<Longrightarrow> ToLower name = name"
  by (induction name) (auto simp: lowercaseASCII_def ToLower_def toLowerChar_def Let_def)

lemma Split_no_sep: "sep \<notin> set v \<Longrightarrow> Split v sep = [v]"
  by (induction v) (auto split: list.splits)

lemma Split_append_sep: "sep \<notin> set v \<Longrightarrow> Split (v @ sep # r) sep = v # Split r sep"
  by (induction v) (auto split: list.splits)

lemma Split_Join:
  assumes "vals \<noteq> []" "list_all (\<lambda>v. sep \<notin> set v) vals"
  shows "Split (Join vals [sep]) sep = vals"
  using assms
proof (induction vals)
  case Nil
  then show ?case by simp
next
  case (Cons v vs)
  show ?case
  proof (cases vs)
    case Nil
    with Cons.prems show ?thesis by (simp add: Split_no_sep)
  next
    case (Cons w ws)
    with Cons.prems Cons.IH show ?thesis by (simp add: Split_append_sep)
  qed
qed

lemma writeHeaderEntries_bufWrite:
  "writeHeaderEntries bufWrite h buf = (None, buf @ concat (map entryBytes h))"
  by (induction h arbitrary: buf) (auto simp: andThen_def bufWrite_def entryBytes_def Let_def)

lemma writeHeaderValueBlock_bufWrite:
  "writeHeaderValueBlock bufWrite h buf = (None, buf @ PutUint32 (of_nat (length h)) @ concat (map entryBytes h))"
  by (simp add: writeHeaderValueBlock_def andThen_def bufWrite_def writeHeaderEntries_bufWrite)


lemma toLowerChar_canon:
  fixes c :: char
  defines "n \<equiv> (of_char c :: nat)"
  shows "toLowerChar (if up \<and> 97 \<le> n \<and> n \<le> 122 then char_of (n - 32)
               else if \<not> up \<and> 65 \<le> n \<and> n \<le> 90 then char_of (n + 32)
               else c) = toLowerChar c"
proof -
  have lt: "n < 256" unfolding n_def by (cases c) (simp add: of_char_def)
  have a: "97 \<le> n \<Longrightarrow> n \<le> 122 \<Longrightarrow> (of_char (char_of (n - 32) :: char) :: nat) = n - 32"
    by simp
  have b: "65 \<le> n \<Longrightarrow> n \<le> 90 \<Longrightarrow> (of_char (char_of (n + 32) :: char) :: nat) = n + 32"
    by simp
  have c: "char_of n = c" unfolding n_def by simp
  show ?thesis
    using a b c by (auto simp: toLowerChar_def Let_def n_def[symmetric])
qed

lemma ToLower_canonicalize: "ToLower (canonicalize up s) = ToLower s"
proof (induction s arbitrary: up)
  case Nil
  then show ?case by (simp add: ToLower_def)
next
  case (Cons c s)
  have ih: "map toLowerChar (canonicalize u s) = map toLowerChar s" for u
    using Cons.IH[of u] by (simp add: ToLower_def)
  show ?case
    using toLowerChar_canon[of up c] by (simp add: ToLower_def Let_def ih)
qed

lemma ToLower_Canonical: "ToLower (CanonicalMIMEHeaderKey s) = ToLower s"
  by (simp add: CanonicalMIMEHeaderKey_def ToLower_canonicalize)

lemma appendValue_new: "k \<notin> fst ` set h0 \<Longrightarrow> appendValue h0 k v = h0 @ [(k, [v])]"
  by (induction h0) auto

lemma appendValue_last: "k \<notin> fst ` set h0 \<Longrightarrow> appendValue (h0 @ [(k, vs)]) k v = h0 @ [(k, vs @ [v])]"
  by (induction h0) auto

lemma foldl_appendValue_last:
  "k \<notin> fst ` set h0 \<Longrightarrow> foldl (\<lambda>h v. appendValue h k v) (h0 @ [(k, vs)]) ws = h0 @ [(k, vs @ ws)]"
  by (induction ws arbitrary: vs) (simp_all add: appendValue_last)

lemma foldl_Add:
  assumes "CanonicalMIMEHeaderKey name \<notin> fst ` set h0" "vals \<noteq> []"
  shows "foldl (\<lambda>h v. Add h name v) h0 vals = h0 @ [(CanonicalMIMEHeaderKey name, vals)]"
proof -
  obtain v ws where v: "vals = v # ws" using assms(2) by (cases vals) auto
  show ?thesis
    using assms(1) foldl_appendValue_last[OF assms(1), of "[v]" ws]
    by (simp add: v Add_def appendValue_new)
qed

lemma parseHeaderEntries_step:
  assumes "validEntry (name, vals)"
    and "map_of h0 name = None"
    and "CanonicalMIMEHeaderKey name \<notin> fst ` set h0"
  shows "parseHeaderEntries ReadFull sid (Suc n) h0 e (entryBytes (name, vals) @ rest)
       = parseHeaderEntries ReadFull sid n (h0 @ [(CanonicalMIMEHeaderKey name, vals)]) e rest"
proof -
  let ?v = "Join vals headerValueSeparator"
  from assms(1) have low: "ToLower name = name" and ln: "length name < 2 ^ 32"
    and ne: "vals \<noteq> []" and nul: "list_all (\<lambda>v. CHR 0x00 \<notin> set v) vals" and lv: "length ?v < 2 ^ 32"
    by (auto simp: validEntry_def ToLower_lowercaseASCII)
  let ?r3 = "bytes_of ?v @ rest"
  let ?r2 = "PutUint32 (of_nat (length ?v)) @ ?r3"
  let ?r1 = "bytes_of name @ ?r2"
  have eb: "entryBytes (name, vals) @ rest = PutUint32 (of_nat (length name)) @ ?r1"
    by (simp add: entryBytes_def low)
  have 1: "ReadFull 4 (PutUint32 (of_nat (length name)) @ ?r1) = (Inr (PutUint32 (of_nat (length name))), ?r1)"
    by (rule ReadFull_append) simp
  have 2: "ReadFull (length name) ?r1 = (Inr (bytes_of name), ?r2)"
    by (rule ReadFull_append) simp
  have 3: "ReadFull 4 ?r2 = (Inr (PutUint32 (of_nat (length ?v))), ?r3)"
    by (rule ReadFull_append) simp
  have 4: "ReadFull (length ?v) ?r3 = (Inr (bytes_of ?v), rest)"
    by (rule ReadFull_append) simp
  have sp: "Split ?v (hd headerValueSeparator) = vals"
    using Split_Join[OF ne nul] by (simp add: headerValueSeparator_def)
  show ?thesis
    unfolding eb parseHeaderEntries.simps
    by (simp add: 1 2 3 4 unat_Uint32_length[OF ln] unat_Uint32_length[OF lv] low sp assms(2)
        foldl_Add[OF assms(3) ne] Let_def del: Uint32_PutUint32)
qed

lemma canonical_fresh:
  assumes "list_all validEntry seen" "validEntry (name, vals)" "name \<notin> fst ` set seen"
  shows "map_of (canonicalKeys seen) name = None"
    and "CanonicalMIMEHeaderKey name \<notin> fst ` set (canonicalKeys seen)"
proof -
  have low: "ToLower name = name"
    using assms(2) by (simp add: validEntry_def ToLower_lowercaseASCII)
  have lowd: "ToLower d = d" if "d \<in> fst ` set seen" for d
    using that assms(1) by (auto simp: list_all_iff validEntry_def ToLower_lowercaseASCII)
  have keys: "fst ` set (canonicalKeys seen) = CanonicalMIMEHeaderKey ` fst ` set seen"
    by (force simp: canonicalKeys_def)
  have "name \<notin> fst ` set (canonicalKeys seen)"
  proof
    assume "name \<in> fst ` set (canonicalKeys seen)"
    then obtain d where d: "d \<in> fst ` set seen" "name = CanonicalMIMEHeaderKey d"
      unfolding keys by blast
    then have "ToLower name = ToLower d" by (simp add: ToLower_Canonical)
    then have "name = d" using low lowd[OF d(1)] by simp
    then show False using d(1) assms(3) by simp
  qed
  then show "map_of (canonicalKeys seen) name = None"
    by (simp add: map_of_eq_None_iff)
  show "CanonicalMIMEHeaderKey name \<notin> fst ` set (canonicalKeys seen)"
  proof
    assume "CanonicalMIMEHeaderKey name \<in> fst ` set (canonicalKeys seen)"
    then obtain d where d: "d \<in> fst ` set seen" "CanonicalMIMEHeaderKey name = CanonicalMIMEHeaderKey d"
      unfolding keys by blast
    then have "ToLower (CanonicalMIMEHeaderKey name) = ToLower (CanonicalMIMEHeaderKey d)" by simp
    then have "name = d" using low lowd[OF d(1)] by (simp add: ToLower_Canonical)
    then show False using d(1) assms(3) by simp
  qed
qed

lemma parseHeaderEntries_round_trip:
  assumes "distinct (map fst (seen @ h))" "list_all validEntry (seen @ h)"
  shows "parseHeaderEntries ReadFull sid (length h) (canonicalKeys seen) None (concat (map entryBytes h) @ rest)
       = ((canonicalKeys (seen @ h), None), rest)"
  using assms
proof (induction h arbitrary: seen)
  case Nil
  then show ?case by simp
next
  case (Cons a h)
  obtain name vals where a: "a = (name, vals)" by (cases a)
  have va: "validEntry (name, vals)" and vd: "list_all validEntry seen"
    using Cons.prems(2) by (simp_all add: a)
  have fresh: "name \<notin> fst ` set seen"
    using Cons.prems(1) by (auto simp: a)
  note cf = canonical_fresh[OF vd va fresh]
  have d': "distinct (map fst ((seen @ [a]) @ h))" "list_all validEntry ((seen @ [a]) @ h)"
    using Cons.prems by simp_all
  have ck: "canonicalKeys seen @ [(CanonicalMIMEHeaderKey name, vals)] = canonicalKeys (seen @ [a])"
    by (simp add: canonicalKeys_def a)
  have "parseHeaderEntries ReadFull sid (length (a # h)) (canonicalKeys seen) None (concat (map entryBytes (a # h)) @ rest)
      = parseHeaderEntries ReadFull sid (length h) (canonicalKeys (seen @ [a])) None (concat (map entryBytes h) @ rest)"
    using parseHeaderEntries_step[OF va cf, of sid "length h" None "concat (map entryBytes h) @ rest"]
    by (simp add: a ck)
  also have "\<dots> = ((canonicalKeys ((seen @ [a]) @ h), None), rest)"
    by (rule Cons.IH[OF d'])
  finally show ?case by simp
qed

lemma name_length_field_wraps:
  "length name = 4294967296 \<Longrightarrow>
     take 4 (snd (writeHeaderEntries bufWrite [(name, vals)] [])) = [0, 0, 0, 0]"
  by (simp add: andThen_def bufWrite_def PutUint32_def Let_def)

text \<open>C5 (as amended): for every header mapping with distinct lowercase ASCII names, at
  least one value for every name, no NUL byte in a value and sizes below \<open>2\<^sup>3\<^sup>2\<close>, the
  serializer succeeds and parsing its output consumes exactly that output and yields, with
  no diagnostic, the same entries in the same order with the same value lists, each name in
  its canonical MIME form (first letter and every letter after a hyphen in upper case), which
  is the key \<^verbatim>\<open>http.Header.Add\<close> stores it under.\<close>

theorem C5_header_block_round_trip:
  assumes "validHeader h"
  shows "fst (writeHeaderValueBlock bufWrite h []) = None
       \<and> parseHeaderValueBlock ReadFull sid (snd (writeHeaderValueBlock bufWrite h []) @ rest)
           = ((canonicalKeys h, None), rest)"
proof -
  from assms have d: "distinct (map fst ([] @ h))" and v: "list_all validEntry ([] @ h)"
    and l: "length h < 2 ^ 32"
    by (simp_all add: validHeader_def)
  have 1: "ReadFull 4 (PutUint32 (of_nat (length h)) @ concat (map entryBytes h) @ rest)
        = (Inr (PutUint32 (of_nat (length h))), concat (map entryBytes h) @ rest)"
    by (rule ReadFull_append) simp
  show ?thesis
    using parseHeaderEntries_round_trip[OF d v, of sid rest]
    by (simp add: writeHeaderValueBlock_bufWrite parseHeaderValueBlock_def 1 unat_Uint32_length[OF l]
        canonicalKeys_def del: Uint32_PutUint32)
qed

text \<open>C5, witness: two names, one of them with two values.\<close>

theorem C5_round_trip_witness:
  "parseHeaderValueBlock ReadFull 1
     (snd (writeHeaderValueBlock bufWrite [('':method'', [''GET'']), (''accept'', [''a'', ''b''])] []))
   = (([('':method'', [''GET'']), (''Accept'', [''a'', ''b''])], None), [])"
proof -
  have v: "validHeader [('':method'', [''GET'']), (''accept'', [''a'', ''b''])]"
    by (simp add: validHeader_def validEntry_def lowercaseASCII_def headerValueSeparator_def)
  have c: "canonicalKeys [('':method'', [''GET'']), (''accept'', [''a'', ''b''])]
             = [('':method'', [''GET'']), (''Accept'', [''a'', ''b''])]"
    by code_simp
  have "parseHeaderValueBlock ReadFull 1
     (snd (writeHeaderValueBlock bufWrite [('':method'', [''GET'']), (''accept'', [''a'', ''b''])] []) @ [])
   = ((canonicalKeys [('':method'', [''GET'']), (''accept'', [''a'', ''b''])], None), [])"
    using C5_header_block_round_trip[OF v, of 1 "[]"] by (rule conjunct2)
  then show ?thesis unfolding c append_Nil2 .
qed

text \<open>C5, counterexample: the name \<open>accept\<close> comes back as \<open>Accept\<close>; a name with an
  empty list of values comes back with one empty value; and for a name of \<open>2\<^sup>3\<^sup>2\<close> bytes
  the serializer writes the name length 0.\<close>

theorem C5_round_trip_counterexample:
  "fst (parseHeaderValueBlock ReadFull 1 (snd (writeHeaderValueBlock bufWrite [(''accept'', [''x''])] [])))
     = ([(''Accept'', [''x''])], None)
   \<and> fst (parseHeaderValueBlock ReadFull 1 (snd (writeHeaderValueBlock bufWrite [('':a'', [])] [])))
     = ([('':a'', [[]])], None)
   \<and> take 4 (snd (writeHeaderEntries bufWrite [(replicate 4294967296 (CHR ''a''), [''x''])] []))
     = [0, 0, 0, 0]"
proof (intro conjI)
  show "fst (parseHeaderValueBlock ReadFull 1 (snd (writeHeaderValueBlock bufWrite [(''accept'', [''x''])] [])))
     = ([(''Accept'', [''x''])], None)"
    by code_simp
  show "fst (parseHeaderValueBlock ReadFull 1 (snd (writeHeaderValueBlock bufWrite [('':a'', [])] [])))
     = ([('':a'', [[]])], None)"
    by code_simp
  show "take 4 (snd (writeHeaderEntries bufWrite [(replicate 4294967296 (CHR ''a''), [''x''])] []))
     = [0, 0, 0, 0]"
    by (rule name_length_field_wraps[OF length_replicate])
qed

section \<open>Diagnostics and banned headers\<close>

text \<open>C8: the code at a SynReply frame (compression disabled) that holds the banned name
  \<open>connection\<close> and the name \<open>accept\<close> twice: \<open>ReadFrame\<close> returns InvalidHeaderPresent and
  no DuplicateHeaders diagnostic, because \<^verbatim>\<open>h[name]\<close> looks the lowercase name up while \<^verbatim>\<open>Add\<close>
  has stored it under \<open>Accept\<close>. With the name \<open>:a\<close> twice, which \<^verbatim>\<open>Add\<close> leaves as it is,
  the diagnostic is returned, as it is for the uppercase name \<open>Connection\<close>.\<close>

theorem C8_duplicate_diagnostic_lost:
  "fst (ReadFrame stored (newFramer True (synReplyWire
      [headerEntry ''connection'' ''close'', headerEntry ''accept'' ''a'', headerEntry ''accept'' ''b''])))
     = Inl (Error InvalidHeaderPresent 1)
   \<and> fst (ReadFrame stored (newFramer True (synReplyWire
      [headerEntry ''connection'' ''close'', headerEntry '':a'' ''a'', headerEntry '':a'' ''b''])))
     = Inl (Error DuplicateHeaders 1)
   \<and> fst (ReadFrame stored (newFramer True (synReplyWire [headerEntry ''Connection'' ''close''])))
     = Inl (Error UnlowercasedHeaderName 1)"
proof (intro conjI)
  show "fst (ReadFrame stored (newFramer True (synReplyWire
      [headerEntry ''connection'' ''close'', headerEntry ''accept'' ''a'', headerEntry ''accept'' ''b''])))
     = Inl (Error InvalidHeaderPresent 1)"
    by code_simp
  show "fst (ReadFrame stored (newFramer True (synReplyWire
      [headerEntry ''connection'' ''close'', headerEntry '':a'' ''a'', headerEntry '':a'' ''b''])))
     = Inl (Error DuplicateHeaders 1)"
    by code_simp
  show "fst (ReadFrame stored (newFramer True (synReplyWire [headerEntry ''Connection'' ''close''])))
     = Inl (Error UnlowercasedHeaderName 1)"
    by code_simp
qed

end
